theory Spec2Isabelle
  imports Main "HOL-Library.Sublist" "HOL-Library.Char_ord" "HOL-Library.List_Lexorder"
    "HOL-Library.AList"
begin

section \<open>Strings and paths\<close>

text \<open>
  Python strings are modelled as \<open>string\<close>. The functions below are the parts of
  \<^verbatim>\<open>str\<close> and \<^verbatim>\<open>os.path\<close> (posix flavour) that the scripts use.
\<close>

type_synonym path = string

definition startswith :: "string \<Rightarrow> string \<Rightarrow> bool" where
  "startswith s p = prefix p s"

definition endswith :: "string \<Rightarrow> string \<Rightarrow> bool" where
  "endswith s p = (length p \<le> length s \<and> drop (length s - length p) s = p)"

text \<open>\<^verbatim>\<open>s.split(sep)\<close> for a one-character separator: empty fields are kept.\<close>

fun split_sep :: "char \<Rightarrow> string \<Rightarrow> string list" where
  "split_sep c [] = [[]]"
| "split_sep c (x # xs) =
     (if x = c then [] # split_sep c xs
      else (case split_sep c xs of [] \<Rightarrow> [[x]] | w # ws \<Rightarrow> (x # w) # ws))"

definition whitespace :: "char list" where
  "whitespace = [CHR '' '', CHR 0x09, CHR 0x0A, CHR 0x0B, CHR 0x0C, CHR 0x0D]"

text \<open>\<^verbatim>\<open>s.split()\<close>: runs of whitespace separate the fields, no empty field is returned.\<close>

definition split_ws :: "string \<Rightarrow> string list" where
  "split_ws s =
     filter (\<lambda>w. w \<noteq> [])
       (split_sep CHR '' '' (map (\<lambda>c. if c \<in> set whitespace then CHR '' '' else c) s))"

fun str_join :: "string \<Rightarrow> string list \<Rightarrow> string" where
  "str_join sep [] = []"
| "str_join sep [x] = x"
| "str_join sep (x # y # ys) = x @ sep @ str_join sep (y # ys)"

text \<open>\<^verbatim>\<open>posixpath.join\<close>: an absolute component discards what precedes it.\<close>

definition op_join2 :: "string \<Rightarrow> string \<Rightarrow> string" where
  "op_join2 path b =
     (if startswith b ''/'' then b
      else if path = [] \<or> endswith path ''/'' then path @ b
      else path @ ''/'' @ b)"

definition op_join :: "string \<Rightarrow> string list \<Rightarrow> string" where
  "op_join a ps = foldl op_join2 a ps"

text \<open>\<^verbatim>\<open>posixpath.normpath\<close>, with its loop over the components.\<close>

definition norm_step :: "nat \<Rightarrow> string list \<Rightarrow> string \<Rightarrow> string list" where
  "norm_step initial_slashes new_comps name =
     (if name = [] \<or> name = ''.'' then new_comps
      else if name \<noteq> ''..'' \<or> (initial_slashes = 0 \<and> new_comps = [])
              \<or> (new_comps \<noteq> [] \<and> last new_comps = ''..'')
           then new_comps @ [name]
      else if new_comps \<noteq> [] then butlast new_comps
      else new_comps)"

definition op_normpath :: "string \<Rightarrow> string" where
  "op_normpath path =
     (if path = [] then ''.''
      else
        let initial_slashes =
              (if startswith path ''/''
               then (if startswith path ''//'' \<and> \<not> startswith path ''///'' then 2 else 1)
               else (0::nat));
            comps = foldl (norm_step initial_slashes) [] (split_sep CHR ''/'' path);
            p = replicate initial_slashes CHR ''/'' @ str_join ''/'' comps
        in if p = [] then ''.'' else p)"

text \<open>\<^verbatim>\<open>os.path.abspath\<close>, with the current working directory as an argument.\<close>

definition op_abspath :: "string \<Rightarrow> string \<Rightarrow> string" where
  "op_abspath cwd p = op_normpath (if startswith p ''/'' then p else op_join2 cwd p)"

text \<open>
  \<^verbatim>\<open>pathlib\<close>: the text of a path has its root, then its names joined by single
  slashes, without empty names and without \<^verbatim>\<open>.\<close>; the operator \<^verbatim>\<open>/\<close> joins and
  normalises in this way.
\<close>

definition pure_path :: "string \<Rightarrow> string" where
  "pure_path p =
     (let names = filter (\<lambda>c. c \<noteq> [] \<and> c \<noteq> ''.'') (split_sep CHR ''/'' p);
          root = (if startswith p ''//'' \<and> \<not> startswith p ''///'' then ''//''
                  else if startswith p ''/'' then ''/'' else []);
          q = root @ str_join ''/'' names
      in if q = [] then ''.'' else q)"

definition path_div :: "string \<Rightarrow> string \<Rightarrow> string" where
  "path_div a b = pure_path (op_join2 a b)"

text \<open>
  The components by which \<^verbatim>\<open>pathlib\<close> orders two paths: the root, then the
  non-empty names.
\<close>

definition path_parts :: "string \<Rightarrow> string list" where
  "path_parts p =
     (if startswith p ''/'' then [''/''] else [])
     @ filter (\<lambda>c. c \<noteq> [] \<and> c \<noteq> ''.'') (split_sep CHR ''/'' p)"

section \<open>Transforms and images\<close>

text \<open>
  The \<^verbatim>\<open>regtricks\<close> library is not part of the repository. A transform object is
  described by the call that built it; a composite transform is the ordered list of its
  elementary transforms, first applied first, and \<^verbatim>\<open>rt.chain\<close> concatenates.
\<close>

datatype xform =
    McFlirt string string string
  | McVolume string string string nat
  | Flirt string string string
  | Fnirt string string string bool "string \<times> string"
  | Identity
  | Inverse xform

type_synonym transform = "xform list"

definition chain :: "transform list \<Rightarrow> transform" where
  "chain ts = concat ts"

definition inverse_of :: "transform \<Rightarrow> transform" where
  "inverse_of t = rev (map Inverse t)"

fun volume :: "nat \<Rightarrow> xform \<Rightarrow> xform" where
  "volume i (McFlirt m s r) = McVolume m s r i"
| "volume i (Inverse x) = Inverse (volume i x)"
| "volume i x = x"

text \<open>Indexing a (possibly chained) motion correction: \<^verbatim>\<open>mc[i]\<close>.\<close>

definition index_of :: "transform \<Rightarrow> nat \<Rightarrow> transform" where
  "index_of t i = map (volume i) t"

text \<open>An array: its shape and its elements in row-major order.\<close>

record 'a ndarray =
  shape :: "nat list"
  data :: "'a list"

text \<open>
  The grid an image is resampled onto: that of an image file, or the grid of the first
  file with its voxels resized to the voxel size of the second.
\<close>

datatype space = SpaceOf string | Resized string string

text \<open>An array held in memory, described by the computation that produced it.\<close>

datatype 'f image =
    FromFile string
  | Resampled transform "'f image" space
  | Binarised "'f image"
  | FillHoles "'f image"
  | Stacked "'f image" "'f image"
  | TimesTwoPi "'f image"
  | MeanLast "'f image"
  | WmMask "'f image"
  | TiArray "'f ndarray"

datatype 'f filedata =
    Opaque nat
  | TextData string
  | ImageData "'f image"
  | MatData transform string string

datatype 'f entry = Dir | File "'f filedata"

section \<open>The process state and the monad of effects\<close>

datatype exn =
    FileNotFoundError string
  | FileExistsError string
  | IsADirectoryError string
  | NotADirectoryError string
  | IndexError
  | ValueError
  | TypeError
  | ZeroDivisionError
  | NameError string
  | CalledProcessError int
  | RuntimeError string
  | SystemExit int

datatype 'a outcome = Val 'a | Exc exn

text \<open>
  An external command: run through the shell, run from an argument vector, or FSL's
  \<^verbatim>\<open>bet\<close> wrapper with its input image and output name.
\<close>

datatype 'f cmd = Shell string | Argv "string list" | Bet "'f image" string

text \<open>
  What a run does to its surroundings, in order: the commands it starts (with the working
  directory they start in and their exit status) and the file operations of the script
  itself, each with the path as the script gave it.
\<close>

datatype 'f event =
    Call string "'f cmd" int
  | Save string "'f filedata"
  | Remove string
  | Replace string string
  | Chdir string
  | Makedirs string

type_synonym 'f files = "(string \<times> 'f entry) list"

record 'f state =
  fs :: "'f files"
  cwd :: string
  trace :: "'f event list"

text \<open>
  What lies outside the scripts: the external programs (their exit status and their
  effect on the files, given the working directory they are started in), the size of the
  grid of an image, and floating-point arithmetic.
\<close>

record 'f world =
  run_tool :: "string \<Rightarrow> 'f cmd \<Rightarrow> 'f files \<Rightarrow> int \<times> 'f files"
  grid_size :: "'f filedata \<Rightarrow> nat \<times> nat \<times> nat"
  fadd :: "'f \<Rightarrow> 'f \<Rightarrow> 'f"
  fmul :: "'f \<Rightarrow> 'f \<Rightarrow> 'f"
  of_integer :: "int \<Rightarrow> 'f"
  literal :: "string \<Rightarrow> 'f"

type_synonym ('f, 'a) py = "'f state \<Rightarrow> 'a outcome \<times> 'f state"

definition ret :: "'a \<Rightarrow> ('f, 'a) py" where
  "ret x = (\<lambda>s. (Val x, s))"

definition raise :: "exn \<Rightarrow> ('f, 'a) py" where
  "raise e = (\<lambda>s. (Exc e, s))"

definition bnd :: "('f, 'a) py \<Rightarrow> ('a \<Rightarrow> ('f, 'b) py) \<Rightarrow> ('f, 'b) py" where
  "bnd m f = (\<lambda>s. case m s of (Val x, s') \<Rightarrow> f x s' | (Exc e, s') \<Rightarrow> (Exc e, s'))"

definition seq :: "('f, 'a) py \<Rightarrow> ('f, 'b) py \<Rightarrow> ('f, 'b) py" where
  "seq m n = bnd m (\<lambda>_. n)"

definition py_when :: "bool \<Rightarrow> ('f, unit) py \<Rightarrow> ('f, unit) py" where
  "py_when c m = (if c then m else ret ())"

definition lookup :: "'f state \<Rightarrow> string \<Rightarrow> 'f entry option" where
  "lookup s p = map_of (fs s) (op_abspath (cwd s) p)"

definition log :: "'f event \<Rightarrow> ('f, unit) py" where
  "log e = (\<lambda>s. (Val (), s\<lparr>trace := trace s @ [e]\<rparr>))"

definition os_getcwd :: "('f, string) py" where
  "os_getcwd = (\<lambda>s. (Val (cwd s), s))"

definition os_chdir :: "string \<Rightarrow> ('f, unit) py" where
  "os_chdir d = (\<lambda>s.
     let p = op_abspath (cwd s) d in
     case map_of (fs s) p of
       None \<Rightarrow> (Exc (FileNotFoundError p), s)
     | Some (File _) \<Rightarrow> (Exc (NotADirectoryError p), s)
     | Some Dir \<Rightarrow> (Val (), s\<lparr>cwd := p, trace := trace s @ [Chdir d]\<rparr>))"

definition op_exists :: "string \<Rightarrow> ('f, bool) py" where
  "op_exists p = (\<lambda>s. (Val (lookup s p \<noteq> None), s))"

definition op_isfile :: "string \<Rightarrow> ('f, bool) py" where
  "op_isfile p = (\<lambda>s. (Val (case lookup s p of Some (File _) \<Rightarrow> True | _ \<Rightarrow> False), s))"

definition os_remove :: "string \<Rightarrow> ('f, unit) py" where
  "os_remove p = (\<lambda>s.
     let q = op_abspath (cwd s) p in
     case map_of (fs s) q of
       None \<Rightarrow> (Exc (FileNotFoundError q), s)
     | Some Dir \<Rightarrow> (Exc (IsADirectoryError q), s)
     | Some (File _) \<Rightarrow>
         (Val (), s\<lparr>fs := AList.delete q (fs s), trace := trace s @ [Remove p]\<rparr>))"

definition os_replace :: "string \<Rightarrow> string \<Rightarrow> ('f, unit) py" where
  "os_replace src dst = (\<lambda>s.
     let a = op_abspath (cwd s) src; b = op_abspath (cwd s) dst in
     case map_of (fs s) a of
       None \<Rightarrow> (Exc (FileNotFoundError a), s)
     | Some e \<Rightarrow>
         (case (e, map_of (fs s) b) of
            (File _, Some Dir) \<Rightarrow> (Exc (IsADirectoryError b), s)
          | (Dir, Some (File _)) \<Rightarrow> (Exc (NotADirectoryError b), s)
          | _ \<Rightarrow> (Val (), s\<lparr>fs := AList.update b e (AList.delete a (fs s)),
                            trace := trace s @ [Replace src dst]\<rparr>)))"

definition os_makedirs :: "string \<Rightarrow> ('f, unit) py" where
  "os_makedirs d = (\<lambda>s.
     let p = op_abspath (cwd s) d in
     case map_of (fs s) p of
       Some (File _) \<Rightarrow> (Exc (FileExistsError p), s)
     | Some Dir \<Rightarrow> (Val (), s)
     | None \<Rightarrow> (Val (), s\<lparr>fs := AList.update p Dir (fs s), trace := trace s @ [Makedirs d]\<rparr>))"

text \<open>Reading a file (\<^verbatim>\<open>nb.load\<close>, \<^verbatim>\<open>rt.ImageSpace\<close>, \<^verbatim>\<open>Image\<close>, a matrix or a warp).\<close>

definition load :: "string \<Rightarrow> ('f, 'f filedata) py" where
  "load p = (\<lambda>s.
     case lookup s p of
       Some (File d) \<Rightarrow> (Val d, s)
     | Some Dir \<Rightarrow> (Exc (IsADirectoryError (op_abspath (cwd s) p)), s)
     | None \<Rightarrow> (Exc (FileNotFoundError (op_abspath (cwd s) p)), s))"

text \<open>Writing a file (\<^verbatim>\<open>nb.save\<close>, \<^verbatim>\<open>save_image\<close>, \<^verbatim>\<open>save_like\<close>, \<^verbatim>\<open>save_fsl\<close>). The
  name is taken to carry the suffix of its format and its directory to exist, as both do
  for every name that \<^verbatim>\<open>main\<close> writes to: the libraries add a missing suffix and
  refuse a missing directory, and neither is modelled.\<close>

definition save :: "string \<Rightarrow> 'f filedata \<Rightarrow> ('f, unit) py" where
  "save p d = (\<lambda>s.
     let q = op_abspath (cwd s) p in
     case map_of (fs s) q of
       Some Dir \<Rightarrow> (Exc (IsADirectoryError q), s)
     | _ \<Rightarrow> (Val (), s\<lparr>fs := AList.update q (File d) (fs s), trace := trace s @ [Save p d]\<rparr>))"

text \<open>
  \<^verbatim>\<open>subprocess.run\<close>: the exit status is returned; only with \<^verbatim>\<open>check=True\<close> does
  a non-zero status raise.
\<close>

definition sp_run :: "'f world \<Rightarrow> 'f cmd \<Rightarrow> bool \<Rightarrow> ('f, int) py" where
  "sp_run w c check = (\<lambda>s.
     let (rc, fs') = run_tool w (cwd s) c (fs s);
         s' = s\<lparr>fs := fs', trace := trace s @ [Call (cwd s) c rc]\<rparr>
     in if check \<and> rc \<noteq> 0 then (Exc (CalledProcessError rc), s') else (Val rc, s'))"

text \<open>Reading a local variable that may not have been assigned.\<close>

definition var :: "string \<Rightarrow> 'a option \<Rightarrow> ('f, 'a) py" where
  "var name v = (case v of None \<Rightarrow> raise (NameError name) | Some x \<Rightarrow> ret x)"

text \<open>List indexing and unpacking a sequence into two names.\<close>

definition subscript :: "'a list \<Rightarrow> nat \<Rightarrow> ('f, 'a) py" where
  "subscript xs i = (if i < length xs then ret (xs ! i) else raise IndexError)"

definition unpack2 :: "'a list \<Rightarrow> ('f, 'a \<times> 'a) py" where
  "unpack2 xs = (case xs of [a, b] \<Rightarrow> ret (a, b) | _ \<Rightarrow> raise ValueError)"

section \<open>\<^verbatim>\<open>scripts/distcorr_warps.py\<close>\<close>

subsection \<open>\<^verbatim>\<open>find_field_maps\<close>\<close>

text \<open>
  \<^verbatim>\<open>scan_dir.glob('**/*' + suffix)\<close>: every existing path below \<open>scan_dir\<close> whose last
  name ends with the given ending, given relative to \<open>scan_dir\<close> as \<^verbatim>\<open>pathlib\<close> does.
\<close>

definition glob_suffix :: "string \<Rightarrow> string \<Rightarrow> ('f, string list) py" where
  "glob_suffix scan_dir ending = (\<lambda>s.
     let base = op_abspath (cwd s) scan_dir;
         root = (if endswith base ''/'' then base else base @ ''/'')
     in (Val (map (\<lambda>k. path_div scan_dir (drop (length root) k))
               (remdups (filter (\<lambda>k. startswith k root \<and> endswith k ending)
                  (map fst (fs s))))), s))"

definition last_two :: "'a list \<Rightarrow> 'a list" where
  "last_two xs = drop (length xs - 2) xs"

definition pa_name :: "string \<Rightarrow> string" where
  "pa_name subject_number =
     ''resources/NIFTI/files/'' @ subject_number @ ''_V1_B_PCASLhr_SpinEchoFieldMap_PA.nii.gz''"

definition ap_name :: "string \<Rightarrow> string" where
  "ap_name subject_number =
     ''resources/NIFTI/files/'' @ subject_number @ ''_V1_B_PCASLhr_SpinEchoFieldMap_AP.nii.gz''"

definition fm_dirs_of :: "string \<Rightarrow> string \<Rightarrow> ('f, string list) py" where
  "fm_dirs_of study_dir subject_number =
     (let scan_dir = path_div (path_div (pure_path study_dir) subject_number)
                       (subject_number @ ''_V1_B/scans'') in
      bnd (glob_suffix scan_dir ''-FieldMap_SE_EPI'') (\<lambda>found.
      ret (last_two (sort_key path_parts found))))"

definition find_field_maps :: "string \<Rightarrow> string \<Rightarrow> ('f, string \<times> string) py" where
  "find_field_maps study_dir subject_number =
     bnd (fm_dirs_of study_dir subject_number) (\<lambda>fm_dirs.
     bnd (subscript fm_dirs 0) (\<lambda>d0.
     bnd (op_exists (path_div d0 (pa_name subject_number))) (\<lambda>e0.
     bnd (if e0 then bnd (unpack2 fm_dirs) (\<lambda>(pa_dir, ap_dir). ret (Some pa_dir, Some ap_dir))
          else bnd (subscript fm_dirs 1) (\<lambda>d1.
               bnd (op_exists (path_div d1 (pa_name subject_number))) (\<lambda>e1.
               if e1 then bnd (unpack2 fm_dirs) (\<lambda>(ap_dir, pa_dir). ret (Some pa_dir, Some ap_dir))
               else ret (None, None))))
       (\<lambda>(pa_dir, ap_dir).
     bnd (var ''pa_dir'' pa_dir) (\<lambda>pa.
     bnd (var ''ap_dir'' ap_dir) (\<lambda>ap.
     ret (path_div pa (pa_name subject_number), path_div ap (ap_name subject_number))))))))"


subsection \<open>Arrays\<close>

text \<open>
  The \<^verbatim>\<open>numpy\<close> operations of \<^verbatim>\<open>create_ti_image\<close>. An operation that \<^verbatim>\<open>numpy\<close>
  rejects returns the exception.
\<close>

definition ebind :: "exn + 'a \<Rightarrow> ('a \<Rightarrow> exn + 'b) \<Rightarrow> exn + 'b" where
  "ebind r f = (case r of Inl e \<Rightarrow> Inl e | Inr x \<Rightarrow> f x)"

definition lift :: "exn + 'a \<Rightarrow> ('f, 'a) py" where
  "lift r = (case r of Inl e \<Rightarrow> raise e | Inr x \<Rightarrow> ret x)"

text \<open>Row-major offsets: the position of an index in the data, and back.\<close>

fun ravel :: "nat list \<Rightarrow> nat list \<Rightarrow> nat" where
  "ravel (n # ns) (i # idx) = i * prod_list ns + ravel ns idx"
| "ravel ns idx = 0"

fun unravel :: "nat list \<Rightarrow> nat \<Rightarrow> nat list" where
  "unravel [] k = []"
| "unravel (n # ns) k = (k div prod_list ns) # unravel ns (k mod prod_list ns)"

text \<open>\<^verbatim>\<open>a[i, j, ...]\<close>\<close>

definition item :: "'a ndarray \<Rightarrow> nat list \<Rightarrow> 'a" where
  "item a idx = data a ! ravel (shape a) idx"

text \<open>The array of a given shape whose element at each index is given by a function.\<close>

definition mk_array :: "nat list \<Rightarrow> (nat list \<Rightarrow> 'a) \<Rightarrow> 'a ndarray" where
  "mk_array sh f = \<lparr>shape = sh, data = map (\<lambda>k. f (unravel sh k)) [0..<prod_list sh]\<rparr>"

text \<open>\<^verbatim>\<open>np.arange(0, n)\<close>\<close>

definition np_arange :: "int \<Rightarrow> int ndarray" where
  "np_arange n = \<lparr>shape = [nat n], data = map int [0..<nat n]\<rparr>"

text \<open>\<^verbatim>\<open>np.tile(a, reps)\<close> for a one-dimensional \<open>a\<close> and an integer \<open>reps\<close>.\<close>

definition np_tile :: "'a ndarray \<Rightarrow> int \<Rightarrow> exn + 'a ndarray" where
  "np_tile a reps =
     (if reps < 0 then Inl ValueError
      else Inr \<lparr>shape = [length (data a) * nat reps],
                data = concat (replicate (nat reps) (data a))\<rparr>)"

text \<open>\<^verbatim>\<open>np.tile(x, size)\<close> for a scalar \<open>x\<close>: the array of that shape filled with \<open>x\<close>.\<close>

definition np_tile_scalar :: "'a \<Rightarrow> nat list \<Rightarrow> 'a ndarray" where
  "np_tile_scalar x dims = \<lparr>shape = dims, data = replicate (prod_list dims) x\<rparr>"

text \<open>\<^verbatim>\<open>np.array(arrays)\<close> of arrays of one shape: stacking along a new first axis; of
  the empty list, the empty one-dimensional array.\<close>

definition np_array :: "'a ndarray list \<Rightarrow> 'a ndarray" where
  "np_array xs =
     \<lparr>shape = length xs # (case xs of [] \<Rightarrow> [] | a # _ \<Rightarrow> shape a),
      data = concat (map data xs)\<rparr>"

fun position :: "nat \<Rightarrow> nat list \<Rightarrow> nat" where
  "position j [] = 0"
| "position j (k # ks) = (if j = k then 0 else Suc (position j ks))"

text \<open>\<^verbatim>\<open>a.transpose(axes)\<close>: axis \<open>k\<close> of the result is axis \<open>axes ! k\<close> of \<open>a\<close>.\<close>

definition np_transpose :: "'a ndarray \<Rightarrow> nat list \<Rightarrow> exn + 'a ndarray" where
  "np_transpose a axes =
     (if length axes = length (shape a) \<and> distinct axes
         \<and> list_all (\<lambda>k. k < length (shape a)) axes
      then Inr (mk_array (map (\<lambda>k. shape a ! k) axes)
                  (\<lambda>idx. item a (map (\<lambda>j. idx ! position j axes) [0..<length axes])))
      else Inl ValueError)"

text \<open>\<^verbatim>\<open>a.reshape(newshape)\<close>: the same elements in the same order.\<close>

definition np_reshape :: "'a ndarray \<Rightarrow> nat list \<Rightarrow> exn + 'a ndarray" where
  "np_reshape a newshape =
     (if prod_list newshape = length (data a)
      then Inr \<lparr>shape = newshape, data = data a\<rparr>
      else Inl ValueError)"

definition np_map :: "('a \<Rightarrow> 'b) \<Rightarrow> 'a ndarray \<Rightarrow> 'b ndarray" where
  "np_map f a = \<lparr>shape = shape a, data = map f (data a)\<rparr>"

text \<open>
  Broadcasting of a binary operation: the shorter shape is padded with leading ones, and
  along each axis the lengths are equal or one of them is 1.
\<close>

definition pad_shape :: "nat \<Rightarrow> nat list \<Rightarrow> nat list" where
  "pad_shape n sh = replicate (n - length sh) 1 @ sh"

definition bcast_index :: "nat list \<Rightarrow> nat list \<Rightarrow> nat list" where
  "bcast_index sh idx =
     map (\<lambda>(n, i). if n = 1 then 0 else i) (zip sh (drop (length idx - length sh) idx))"

definition np_binop :: "('a \<Rightarrow> 'b \<Rightarrow> 'c) \<Rightarrow> 'a ndarray \<Rightarrow> 'b ndarray \<Rightarrow> exn + 'c ndarray" where
  "np_binop f a b =
     (let n = max (length (shape a)) (length (shape b));
          sa = pad_shape n (shape a);
          sb = pad_shape n (shape b)
      in if list_all (\<lambda>(x, y). x = y \<or> x = 1 \<or> y = 1) (zip sa sb)
         then Inr (mk_array (map (\<lambda>(x, y). if x = 1 then y else x) (zip sa sb))
                     (\<lambda>idx. f (item a (bcast_index (shape a) idx))
                              (item b (bcast_index (shape b) idx))))
         else Inl ValueError)"

subsection \<open>\<^verbatim>\<open>create_ti_image\<close>\<close>

text \<open>Lines 233 to 237: the array that is saved, from the size of the grid. The number
  of slices is a \<^verbatim>\<open>numpy\<close> integer, whose floor division by zero is zero (as \<open>div\<close> is)
  and raises nothing.\<close>

definition ti_array ::
  "'f world \<Rightarrow> nat \<times> nat \<times> nat \<Rightarrow> 'f list \<Rightarrow> int \<Rightarrow> 'f \<Rightarrow> exn + 'f ndarray" where
  "ti_array w asl_size tis sliceband slicedt =
     (case asl_size of (nx, ny, n_slice) \<Rightarrow>
        ebind (np_tile (np_arange sliceband) (int n_slice div sliceband)) (\<lambda>tiled.
        ebind (np_reshape tiled [1, 1, n_slice, 1]) (\<lambda>slice_in_band.
        ebind (np_transpose (np_array (map (\<lambda>x. np_tile_scalar x [nx, ny, n_slice]) tis))
                 [1, 2, 3, 0]) (\<lambda>ti_array.
        np_binop (fadd w) ti_array
          (np_map (\<lambda>k. fmul w (of_integer w k) slicedt) slice_in_band)))))"

definition create_ti_image ::
  "'f world \<Rightarrow> string \<Rightarrow> 'f list \<Rightarrow> int \<Rightarrow> 'f \<Rightarrow> string \<Rightarrow> ('f, unit) py" where
  "create_ti_image w asl tis sliceband slicedt outname =
     bnd (load asl) (\<lambda>asl_spc.
     bnd (lift (ti_array w (grid_size w asl_spc) tis sliceband slicedt)) (\<lambda>ti_array.
     bnd (load asl) (\<lambda>_.
     save outname (ImageData (TiArray ti_array)))))"


subsection \<open>Library calls\<close>

text \<open>
  Loading a transform reads its file and the two images that give its source and
  reference grids. A motion correction is a directory of matrices, and the library
  refuses a directory without any.
\<close>

definition from_flirt :: "string \<Rightarrow> string \<Rightarrow> string \<Rightarrow> ('f, transform) py" where
  "from_flirt path src ref =
     bnd (load path) (\<lambda>_. bnd (load src) (\<lambda>_. bnd (load ref) (\<lambda>_.
     ret [Flirt path src ref])))"

definition from_fnirt ::
  "string \<Rightarrow> string \<Rightarrow> string \<Rightarrow> bool \<Rightarrow> string \<times> string \<Rightarrow> ('f, transform) py" where
  "from_fnirt path src ref intensity_correct constrain_jac =
     bnd (load path) (\<lambda>_. bnd (load src) (\<lambda>_. bnd (load ref) (\<lambda>_.
     ret [Fnirt path src ref intensity_correct constrain_jac])))"

definition from_mcflirt :: "string \<Rightarrow> string \<Rightarrow> string \<Rightarrow> ('f, transform) py" where
  "from_mcflirt mats src ref =
     bnd (glob_suffix mats []) (\<lambda>found.
     if found = [] then raise (RuntimeError ''Did not find any matrices'')
     else bnd (load src) (\<lambda>_. bnd (load ref) (\<lambda>_.
          ret [McFlirt mats src ref])))"

definition load_space :: "space \<Rightarrow> ('f, unit) py" where
  "load_space sp = (case sp of SpaceOf p \<Rightarrow> seq (load p) (ret ()) | Resized a b \<Rightarrow> ret ())"

text \<open>\<^verbatim>\<open>t.apply_to_image(src, ref)\<close>: the image file \<open>src\<close> resampled through \<open>t\<close> onto \<open>ref\<close>.\<close>

definition apply_to_image :: "transform \<Rightarrow> string \<Rightarrow> space \<Rightarrow> ('f, 'f image) py" where
  "apply_to_image t src ref =
     bnd (load src) (\<lambda>_. bnd (load_space ref) (\<lambda>_.
     ret (Resampled t (FromFile src) ref)))"

text \<open>\<^verbatim>\<open>t.apply_to_array(arr, src, ref)\<close>: an array in memory, on the grid of \<open>src\<close>.\<close>

definition apply_to_array ::
  "transform \<Rightarrow> 'f image \<Rightarrow> space \<Rightarrow> space \<Rightarrow> ('f, 'f image) py" where
  "apply_to_array t arr src ref =
     bnd (load_space src) (\<lambda>_. bnd (load_space ref) (\<lambda>_.
     ret (Resampled t arr ref)))"

definition save_like :: "string \<Rightarrow> 'f image \<Rightarrow> string \<Rightarrow> ('f, unit) py" where
  "save_like ref arr path = bnd (load ref) (\<lambda>_. save path (ImageData arr))"

definition save_fsl :: "transform \<Rightarrow> string \<Rightarrow> string \<Rightarrow> string \<Rightarrow> ('f, unit) py" where
  "save_fsl t path src ref =
     bnd (load src) (\<lambda>_. bnd (load ref) (\<lambda>_. save path (MatData t src ref)))"

text \<open>FSL's \<^verbatim>\<open>bet\<close> wrapper raises when the program exits with a non-zero status.\<close>

definition fsl_bet :: "'f world \<Rightarrow> 'f image \<Rightarrow> string \<Rightarrow> ('f, unit) py" where
  "fsl_bet w input output = (\<lambda>s.
     let (rc, fs') = run_tool w (cwd s) (Bet input output) (fs s);
         s' = s\<lparr>fs := fs', trace := trace s @ [Call (cwd s) (Bet input output) rc]\<rparr>
     in if rc \<noteq> 0 then (Exc (RuntimeError ''bet''), s') else (Val (), s'))"

text \<open>Opening a file for appending creates it; writing appends to its text.\<close>

definition open_append :: "string \<Rightarrow> ('f, unit) py" where
  "open_append p = (\<lambda>s.
     let q = op_abspath (cwd s) p in
     case map_of (fs s) q of
       Some Dir \<Rightarrow> (Exc (IsADirectoryError q), s)
     | Some (File _) \<Rightarrow> (Val (), s)
     | None \<Rightarrow> (Val (), s\<lparr>fs := AList.update q (File (TextData [])) (fs s),
                            trace := trace s @ [Save p (TextData [])]\<rparr>))"

definition write_text :: "string \<Rightarrow> string \<Rightarrow> ('f, unit) py" where
  "write_text p txt = (\<lambda>s.
     let q = op_abspath (cwd s) p;
         old = (case map_of (fs s) q of Some (File (TextData t)) \<Rightarrow> t | _ \<Rightarrow> [])
     in (Val (), s\<lparr>fs := AList.update q (File (TextData (old @ txt))) (fs s),
                   trace := trace s @ [Save p (TextData (old @ txt))]\<rparr>))"

subsection \<open>The generators of transforms and masks\<close>

definition generate_asl2struct_initial ::
  "'f world \<Rightarrow> string \<Rightarrow> string \<Rightarrow> string \<Rightarrow> string \<Rightarrow> ('f, unit) py" where
  "generate_asl2struct_initial w asl outdir struct struct_brain =
     (let reg_call = ''asl_reg -i '' @ asl @ '' -o '' @ outdir @ '' -s '' @ struct
                     @ '' --sbet='' @ struct_brain @ '' --mainonly''
      in seq (sp_run w (Argv (split_ws reg_call)) True) (ret ()))"

definition generate_gdc_warp :: "'f world \<Rightarrow> string \<Rightarrow> string \<Rightarrow> string \<Rightarrow> ('f, unit) py" where
  "generate_gdc_warp w asl_vol0 coeffs_path distcorr_dir =
     bnd os_getcwd (\<lambda>pwd.
     seq (os_chdir distcorr_dir)
     (let cmd = ''gradient_unwarp.py '' @ asl_vol0 @ '' gdc_corr_vol1.nii.gz siemens -g ''
                @ coeffs_path
      in seq (sp_run w (Shell cmd) False)
         (os_chdir pwd)))"

definition generate_wmmask :: "string \<Rightarrow> ('f, 'f image) py" where
  "generate_wmmask aparc_aseg =
     bnd (load aparc_aseg) (\<lambda>_. ret (WmMask (FromFile aparc_aseg)))"

definition generate_topup_params :: "string \<Rightarrow> ('f, unit) py" where
  "generate_topup_params pars_filepath =
     bnd (op_isfile pars_filepath) (\<lambda>present.
     seq (py_when present (os_remove pars_filepath))
     (seq (open_append pars_filepath)
     (seq (write_text pars_filepath (''0 1 0 0.04845'' @ [CHR 0x0A]))
          (write_text pars_filepath ''0 -1 0 0.04845''))))"

definition topup_cmd :: "string \<Rightarrow> string \<Rightarrow> string \<Rightarrow> string \<Rightarrow> string" where
  "topup_cmd pa_ap_sefms params config distcorr_dir =
     ''topup --imain='' @ pa_ap_sefms @ '' --datain='' @ params
     @ '' --config='' @ config @ '' --out=topup''
     @ '' --fout='' @ op_join distcorr_dir [''topup_fmap_hz.nii.gz'']
     @ '' --iout='' @ op_join distcorr_dir [''corrected_sefms.nii.gz'']"

definition generate_fmaps ::
  "'f world \<Rightarrow> string \<Rightarrow> string \<Rightarrow> string \<Rightarrow> string \<Rightarrow> ('f, unit) py" where
  "generate_fmaps w pa_ap_sefms params config distcorr_dir =
     bnd os_getcwd (\<lambda>pwd.
     seq (os_chdir distcorr_dir)
     (let topup_fmap = op_join distcorr_dir [''topup_fmap_hz.nii.gz''];
          corrected = op_join distcorr_dir [''corrected_sefms.nii.gz''];
          fmap = op_join distcorr_dir [''fmap.nii.gz''];
          fmapmag = op_join distcorr_dir [''fmapmag.nii.gz''];
          fmapmagbrain = op_join distcorr_dir [''fmapmagbrain.nii.gz'']
      in seq (sp_run w (Shell (topup_cmd pa_ap_sefms params config distcorr_dir)) False)
        (seq (load topup_fmap)
        (seq (load topup_fmap)
        (seq (save fmap (ImageData (TimesTwoPi (FromFile topup_fmap))))
        (seq (load corrected)
        (seq (save fmapmag (ImageData (MeanLast (FromFile corrected))))
        (seq (fsl_bet w (MeanLast (FromFile corrected)) fmapmagbrain)
             (os_chdir pwd)))))))))"

definition generate_asl_mask :: "string \<Rightarrow> string \<Rightarrow> transform \<Rightarrow> ('f, 'f image) py" where
  "generate_asl_mask struct_brain asl asl2struct =
     bnd (load struct_brain) (\<lambda>_.
     bnd (apply_to_array (inverse_of asl2struct) (Binarised (FromFile struct_brain))
            (SpaceOf struct_brain) (SpaceOf asl)) (\<lambda>asl_mask.
     ret (FillHoles asl_mask)))"

definition epidc_cmd ::
  "path \<Rightarrow> path \<Rightarrow> path \<Rightarrow> path \<Rightarrow> path \<Rightarrow> path \<Rightarrow> path \<Rightarrow> path \<Rightarrow> path \<Rightarrow> path
     \<Rightarrow> string" where
  "epidc_cmd asl_vol0_brain distcorr_dir struct struct_brain asl_mask wmmask a2s_fsl fmap
     fmapmag fmapmagbrain =
     ''asl_reg -i '' @ asl_vol0_brain @ '' -o '' @ distcorr_dir @ '' ''
     @ ''-s '' @ struct @ '' --sbet='' @ struct_brain @ '' -m '' @ asl_mask @ '' ''
     @ ''--tissseg='' @ wmmask @ '' --imat='' @ a2s_fsl @ '' --finalonly ''
     @ ''--fmap='' @ fmap @ '' --fmapmag='' @ fmapmag @ '' ''
     @ ''--fmapmagbrain='' @ fmapmagbrain @ '' --pedir=y --echospacing=0.00057 ''"

definition generate_epidc_warp ::
  "'f world \<Rightarrow> path \<Rightarrow> path \<Rightarrow> path \<Rightarrow> path \<Rightarrow> path \<Rightarrow> transform \<Rightarrow> path
     \<Rightarrow> path \<Rightarrow> path \<Rightarrow> path \<Rightarrow> ('f, unit) py" where
  "generate_epidc_warp w asl_vol0_brain struct struct_brain asl_mask wmmask asl2struct fmap
     fmapmag fmapmagbrain distcorr_dir =
     (let a2s_fsl = op_join distcorr_dir [''asl2struct.mat''] in
      seq (save_fsl asl2struct a2s_fsl asl_vol0_brain struct)
     (seq (sp_run w (Shell (epidc_cmd asl_vol0_brain distcorr_dir struct struct_brain asl_mask
                              wmmask a2s_fsl fmap fmapmag fmapmagbrain)) False)
          (ret ())))"

text \<open>The \<^verbatim>\<open>threshold\<close> argument is not used by the body: the mask is \<^verbatim>\<open>data > 0\<close>.\<close>

definition binarise_image :: "string \<Rightarrow> ('f, 'f image) py" where
  "binarise_image path = bnd (load path) (\<lambda>_. ret (Binarised (FromFile path)))"


subsection \<open>The files of a subject\<close>

text \<open>
  The paths that \<^verbatim>\<open>main\<close> builds from \<^verbatim>\<open>sub_base\<close>. The variable \<^verbatim>\<open>asl\<close> is
  assigned three times: \<open>asl_stcorr\<close> is its value at lines 294 and 446, \<open>asl_tis\<close> its
  value from line 329 to line 445.
\<close>

definition force_refresh :: bool where
  "force_refresh = False"

definition pvs_dir :: "string \<Rightarrow> string" where
  "pvs_dir sub_base = op_join sub_base [''T1w'', ''ASL'', ''PVEs'']"

definition t1_asl_dir :: "string \<Rightarrow> string" where
  "t1_asl_dir sub_base = op_join sub_base [''T1w'', ''ASL'']"

definition distcorr_dir :: "string \<Rightarrow> string" where
  "distcorr_dir sub_base = op_join sub_base [''ASL'', ''TIs'', ''SecondPass'', ''DistCorr'']"

definition reg_dir :: "string \<Rightarrow> string" where
  "reg_dir sub_base = op_join sub_base [''T1w'', ''ASL'', ''reg'']"

definition t1_dir :: "string \<Rightarrow> string" where
  "t1_dir sub_base = op_join sub_base [''T1w'']"

definition asl_dir :: "string \<Rightarrow> string" where
  "asl_dir sub_base = op_join sub_base [''ASL'', ''TIs'', ''SecondPass'', ''STCorr2'']"

definition asl_out_dir :: "string \<Rightarrow> string" where
  "asl_out_dir sub_base = op_join (t1_asl_dir sub_base) [''TIs'', ''DistCorr'']"

definition calib_out_dir :: "string \<Rightarrow> string" where
  "calib_out_dir sub_base = op_join (t1_asl_dir sub_base) [''Calib'', ''Calib0'', ''DistCorr'']"

definition asl_stcorr :: "string \<Rightarrow> string" where
  "asl_stcorr sub_base = op_join (asl_dir sub_base) [''tis_stcorr.nii.gz'']"

definition struct :: "string \<Rightarrow> string" where
  "struct sub_base = op_join (t1_dir sub_base) [''T1w_acpc_dc_restore.nii.gz'']"

definition struct_brain :: "string \<Rightarrow> string" where
  "struct_brain sub_base = op_join (t1_dir sub_base) [''T1w_acpc_dc_restore_brain.nii.gz'']"

definition asl_vol0 :: "string \<Rightarrow> string" where
  "asl_vol0 sub_base = op_join (asl_dir sub_base) [''tis_stcorr_vol1.nii.gz'']"

definition t1_asl_grid :: "string \<Rightarrow> string" where
  "t1_asl_grid sub_base =
     op_join (t1_dir sub_base) [''ASL'', ''reg'', ''ASL_grid_T1w_acpc_dc_restore.nii.gz'']"

definition t1_asl_grid_mask :: "string \<Rightarrow> string" where
  "t1_asl_grid_mask sub_base =
     op_join (reg_dir sub_base) [''ASL_grid_T1w_acpc_dc_restore_brain_mask.nii.gz'']"

definition calib :: "string \<Rightarrow> string" where
  "calib sub_base =
     op_join sub_base [''ASL'', ''Calib'', ''Calib0'', ''MTCorr'', ''calib0_mtcorr.nii.gz'']"

definition asl_tis :: "string \<Rightarrow> string" where
  "asl_tis sub_base = op_join sub_base [''ASL'', ''TIs'', ''tis.nii.gz'']"

definition mcdir :: "string \<Rightarrow> string" where
  "mcdir sub_base = op_join sub_base [''ASL'', ''TIs'', ''SecondPass'', ''MoCo'', ''asln2m0.mat'']"

definition gdc_path :: "string \<Rightarrow> string" where
  "gdc_path sub_base = op_join (distcorr_dir sub_base) [''fullWarp_abs.nii.gz'']"

definition pa_ap_sefms :: "string \<Rightarrow> string" where
  "pa_ap_sefms sub_base = op_join (distcorr_dir sub_base) [''merged_sefms.nii.gz'']"

definition topup_params :: "string \<Rightarrow> string" where
  "topup_params sub_base = op_join (distcorr_dir sub_base) [''topup_params.txt'']"

definition topup_config :: string where
  "topup_config = ''b02b0.cnf''"

definition fmap :: "string \<Rightarrow> string" where
  "fmap sub_base = op_join (distcorr_dir sub_base) [''fmap.nii.gz'']"

definition fmapmag :: "string \<Rightarrow> string" where
  "fmapmag sub_base = op_join (distcorr_dir sub_base) [''fmapmag.nii.gz'']"

definition fmapmagbrain :: "string \<Rightarrow> string" where
  "fmapmagbrain sub_base = op_join (distcorr_dir sub_base) [''fmapmagbrain.nii.gz'']"

definition perfusion :: "string \<Rightarrow> string" where
  "perfusion sub_base =
     op_join sub_base [''ASL'', ''TIs'', ''SecondPass'', ''OxfordASL'', ''native_space'',
                       ''perfusion.nii.gz'']"

definition distcorr_out_dir :: "string \<Rightarrow> string \<Rightarrow> string" where
  "distcorr_out_dir sub_base target =
     (if target = ''structural'' then asl_out_dir sub_base else distcorr_dir sub_base)"

definition gdc_tis_vol1_name :: "string \<Rightarrow> string \<Rightarrow> string" where
  "gdc_tis_vol1_name sub_base target =
     op_join (distcorr_out_dir sub_base target) [''gdc_tis_vol1.nii.gz'']"

definition asl2struct_initial_path :: "string \<Rightarrow> string \<Rightarrow> string" where
  "asl2struct_initial_path sub_base target =
     op_join (reg_dir sub_base)
       [if target = ''asl'' then ''asl2struct_init.mat'' else ''asl2struct_final.mat'']"

definition mask_name :: "string \<Rightarrow> string \<Rightarrow> string" where
  "mask_name sub_base target =
     (if target = ''asl'' then op_join (reg_dir sub_base) [''asl_vol1_mask_init.nii.gz'']
      else op_join (reg_dir sub_base) [''asl_vol1_mask_final.nii.gz''])"

definition gdc_unreg_img_brain :: "string \<Rightarrow> string" where
  "gdc_unreg_img_brain sub_base =
     op_join sub_base [''ASL'', ''TIs'', ''SecondPass'', ''DistCorr'', ''gdc_tis_vol1_brain.nii.gz'']"

definition wmmask :: "string \<Rightarrow> string" where
  "wmmask sub_base = op_join sub_base [''T1w'', ''wmmask.nii.gz'']"

definition aparc_seg :: "string \<Rightarrow> string" where
  "aparc_seg sub_base = op_join (t1_dir sub_base) [''aparc+aseg.nii.gz'']"

definition epi_dc_path :: "string \<Rightarrow> string \<Rightarrow> string" where
  "epi_dc_path sub_base target =
     op_join (distcorr_dir sub_base)
       [if target = ''asl'' then ''asl2struct_warp_init.nii.gz''
        else ''asl2struct_warp_final.nii.gz'']"

definition epi_dc_path_temp :: "string \<Rightarrow> string" where
  "epi_dc_path_temp sub_base = op_join (distcorr_dir sub_base) [''asl2struct_warp.nii.gz'']"

definition struct2asl_path :: "string \<Rightarrow> string \<Rightarrow> string" where
  "struct2asl_path sub_base target =
     op_join (distcorr_out_dir sub_base target) [''struct2asl.mat'']"

definition reference :: "string \<Rightarrow> string \<Rightarrow> string" where
  "reference sub_base target =
     (if target = ''structural'' then t1_asl_grid sub_base else asl_stcorr sub_base)"

definition asl_outpath :: "string \<Rightarrow> string \<Rightarrow> string" where
  "asl_outpath sub_base target =
     op_join (distcorr_out_dir sub_base target) [''tis_distcorr.nii.gz'']"

definition calib_outpath :: "string \<Rightarrow> string" where
  "calib_outpath sub_base = op_join (calib_out_dir sub_base) [''calib0_dcorr.nii.gz'']"

definition sfs_name :: "string \<Rightarrow> string" where
  "sfs_name sub_base = op_join (asl_dir sub_base) [''combined_scaling_factors.nii.gz'']"

definition sfs_outpath :: "string \<Rightarrow> string \<Rightarrow> string" where
  "sfs_outpath sub_base target =
     op_join (distcorr_out_dir sub_base target) [''combined_scaling_factors.nii.gz'']"

definition est_t1_name :: "string \<Rightarrow> string" where
  "est_t1_name sub_base =
     op_join sub_base [''ASL'', ''TIs'', ''SecondPass'', ''SatRecov2'', ''spatial'',
                       ''mean_T1t_filt.nii.gz'']"

definition reg_est_t1_name :: "string \<Rightarrow> string" where
  "reg_est_t1_name sub_base = op_join (reg_dir sub_base) [''mean_T1t_filt.nii.gz'']"

definition ti_asl :: "string \<Rightarrow> string" where
  "ti_asl sub_base = op_join sub_base [''ASL'', ''TIs'', ''timing_img.nii.gz'']"

definition ti_t1 :: "string \<Rightarrow> string" where
  "ti_t1 sub_base = op_join (t1_asl_dir sub_base) [''timing_img.nii.gz'']"

definition asl2struct_path :: "string \<Rightarrow> string" where
  "asl2struct_path sub_base = op_join (distcorr_dir sub_base) [''asl2struct.mat'']"

subsection \<open>\<^verbatim>\<open>main\<close>, in the order of the script\<close>

fun for_each :: "('a \<Rightarrow> ('f, unit) py) \<Rightarrow> 'a list \<Rightarrow> ('f, unit) py" where
  "for_each f [] = ret ()"
| "for_each f (x # xs) = seq (f x) (for_each f xs)"

fun all_exist :: "string list \<Rightarrow> ('f, bool) py" where
  "all_exist [] = ret True"
| "all_exist (p # ps) = bnd (op_exists p) (\<lambda>e. bnd (all_exist ps) (\<lambda>r. ret (e \<and> r)))"

text \<open>
  Each block of \<^verbatim>\<open>main\<close> that makes a file is a definition of its own, named after the
  file; the guard of the block is its first test.
\<close>

definition make_asl_vol0 :: "'f world \<Rightarrow> path \<Rightarrow> string \<Rightarrow> ('f, unit) py" where
  "make_asl_vol0 w sb target =
     bnd (op_exists (asl_vol0 sb)) (\<lambda>present.
     py_when ((\<not> present \<or> force_refresh) \<and> target = ''asl'')
       (seq (sp_run w (Argv (split_sep CHR '' ''
               (''fslroi '' @ asl_stcorr sb @ '' '' @ asl_vol0 sb @ '' 0 1''))) True)
            (ret ())))"

definition make_t1_asl_grid :: "path \<Rightarrow> string \<Rightarrow> ('f, unit) py" where
  "make_t1_asl_grid sb target =
     bnd (op_exists (t1_asl_grid sb)) (\<lambda>present.
     py_when ((\<not> present \<or> force_refresh) \<and> target = ''asl'')
       (seq (load (asl_stcorr sb))
       (seq (load (struct sb))
       (bnd (apply_to_image [Identity] (struct sb) (Resized (struct sb) (asl_stcorr sb)))
          (\<lambda>img.
        save (t1_asl_grid sb) (ImageData img))))))"

definition make_t1_asl_grid_mask :: "path \<Rightarrow> string \<Rightarrow> ('f, unit) py" where
  "make_t1_asl_grid_mask sb target =
     bnd (op_exists (t1_asl_grid_mask sb)) (\<lambda>present.
     py_when ((\<not> present \<or> force_refresh) \<and> target = ''asl'')
       (seq (load (asl_stcorr sb))
       (seq (load (struct_brain sb))
       (bnd (binarise_image (struct_brain sb)) (\<lambda>t1_mask.
        bnd (apply_to_array [Identity] t1_mask (SpaceOf (struct_brain sb))
               (Resized (struct_brain sb) (asl_stcorr sb))) (\<lambda>t1_mask_asl_grid.
        save (t1_asl_grid_mask sb) (ImageData (FillHoles t1_mask_asl_grid))))))))"

text \<open>Lines 289 to 325: the directories, volume 0 of the series, the T1 image and its
  brain mask on the ASL grid.\<close>

definition prepare_inputs :: "'f world \<Rightarrow> path \<Rightarrow> string \<Rightarrow> ('f, unit) py" where
  "prepare_inputs w sb target =
     seq (for_each os_makedirs
            [pvs_dir sb, t1_asl_dir sb, distcorr_dir sb, reg_dir sb, asl_out_dir sb,
             calib_out_dir sb])
    (seq (make_asl_vol0 w sb target)
    (seq (make_t1_asl_grid sb target)
         (make_t1_asl_grid_mask sb target)))"

text \<open>Lines 327 to 336: the motion correction, rebased to volume 0 of the series.\<close>

definition load_motion :: "path \<Rightarrow> ('f, transform \<times> transform) py" where
  "load_motion sb =
     bnd (from_mcflirt (mcdir sb) (asl_tis sb) (calib sb)) (\<lambda>asl2calib_mc.
     let calib2asl0 = inverse_of (index_of asl2calib_mc 0);
         asl_mc = chain [asl2calib_mc, calib2asl0]
     in ret (calib2asl0, asl_mc))"

text \<open>Lines 338 to 343: the gradient distortion correction warp.\<close>

definition make_gdc_warp :: "'f world \<Rightarrow> path \<Rightarrow> string \<Rightarrow> path \<Rightarrow> ('f, unit) py" where
  "make_gdc_warp w sb target grad_coefficients =
     bnd (op_exists (gdc_path sb)) (\<lambda>present.
     py_when ((\<not> present \<or> force_refresh) \<and> target = ''asl'')
       (generate_gdc_warp w (asl_vol0 sb) grad_coefficients (distcorr_dir sb)))"

definition load_gdc :: "'f world \<Rightarrow> path \<Rightarrow> string \<Rightarrow> path \<Rightarrow> ('f, transform) py" where
  "load_gdc w sb target grad_coefficients =
     seq (make_gdc_warp w sb target grad_coefficients)
         (from_fnirt (gdc_path sb) (asl_vol0 sb) (asl_vol0 sb) True (''0.01'', ''100''))"

text \<open>Lines 345 to 366: the stacked spin-echo field maps, the parameters of topup and
  the field maps.\<close>

definition make_merged_sefms :: "path \<Rightarrow> string \<Rightarrow> path \<Rightarrow> path \<Rightarrow> ('f, unit) py" where
  "make_merged_sefms sb target pa_sefm ap_sefm =
     bnd (op_exists (pa_ap_sefms sb)) (\<lambda>present.
     py_when ((\<not> present \<or> force_refresh) \<and> target = ''asl'')
       (seq (load pa_sefm)
       (seq (load ap_sefm)
            (save_like pa_sefm (Stacked (FromFile pa_sefm) (FromFile ap_sefm))
               (pa_ap_sefms sb)))))"

definition make_fmaps :: "'f world \<Rightarrow> path \<Rightarrow> string \<Rightarrow> ('f, unit) py" where
  "make_fmaps w sb target =
     bnd (all_exist [fmap sb, fmapmag sb, fmapmagbrain sb]) (\<lambda>present.
     py_when ((\<not> present \<or> force_refresh) \<and> target = ''asl'')
       (generate_fmaps w (pa_ap_sefms sb) (topup_params sb) topup_config (distcorr_dir sb)))"

definition prepare_fmaps ::
  "'f world \<Rightarrow> string \<Rightarrow> string \<Rightarrow> path \<Rightarrow> string \<Rightarrow> ('f, unit) py" where
  "prepare_fmaps w study_dir sub_id sb target =
     bnd (find_field_maps study_dir sub_id) (\<lambda>(pa_sefm, ap_sefm).
     seq (make_merged_sefms sb target pa_sefm ap_sefm)
    (seq (generate_topup_params (topup_params sb))
         (make_fmaps w sb target)))"

text \<open>Lines 368 to 412: the image to register, its linear registration to the
  structural image, the brain mask and the brain-extracted image. The variable
  \<^verbatim>\<open>unreg_img\<close> is assigned only for the two known targets, and reassigned inside two
  of the guarded blocks.\<close>

definition make_gdc_tis_vol1 ::
  "path \<Rightarrow> string \<Rightarrow> transform \<Rightarrow> path option \<Rightarrow> ('f, path option) py" where
  "make_gdc_tis_vol1 sb target gdc unreg_img =
     bnd (op_exists (gdc_tis_vol1_name sb target)) (\<lambda>present.
     if (\<not> present \<or> force_refresh) \<and> target = ''asl''
     then bnd (var ''unreg_img'' unreg_img) (\<lambda>u.
          bnd (apply_to_image gdc u (SpaceOf u)) (\<lambda>gdc_tis_vol1.
          seq (save (gdc_tis_vol1_name sb target) (ImageData gdc_tis_vol1))
              (ret (Some (gdc_tis_vol1_name sb target)))))
     else ret unreg_img)"

definition make_asl2struct_initial ::
  "'f world \<Rightarrow> path \<Rightarrow> string \<Rightarrow> path option \<Rightarrow> ('f, unit) py" where
  "make_asl2struct_initial w sb target unreg_img =
     bnd (op_exists (asl2struct_initial_path sb target)) (\<lambda>present.
     py_when (\<not> present \<or> force_refresh)
       (bnd (var ''unreg_img'' unreg_img) (\<lambda>u.
        seq (generate_asl2struct_initial w u (reg_dir sb) (struct sb) (struct_brain sb))
            (os_replace (op_join (reg_dir sb) [''asl2struct.mat''])
               (asl2struct_initial_path sb target)))))"

definition make_asl_mask :: "path \<Rightarrow> string \<Rightarrow> path \<Rightarrow> transform \<Rightarrow> ('f, unit) py" where
  "make_asl_mask sb target unreg_img asl2struct_initial =
     bnd (op_exists (mask_name sb target)) (\<lambda>present.
     py_when (\<not> present \<or> force_refresh)
       (bnd (generate_asl_mask (struct_brain sb) unreg_img asl2struct_initial) (\<lambda>asl_mask.
        save_like unreg_img asl_mask (mask_name sb target))))"

definition make_gdc_brain :: "'f world \<Rightarrow> path \<Rightarrow> string \<Rightarrow> path \<Rightarrow> ('f, path) py" where
  "make_gdc_brain w sb target unreg_img =
     bnd (op_exists (gdc_unreg_img_brain sb)) (\<lambda>present.
     if (\<not> present \<or> force_refresh) \<and> target = ''asl''
     then seq (fsl_bet w (FromFile unreg_img) (gdc_unreg_img_brain sb))
              (ret (gdc_unreg_img_brain sb))
     else ret unreg_img)"

definition register_initial ::
  "'f world \<Rightarrow> path \<Rightarrow> string \<Rightarrow> transform \<Rightarrow> ('f, path \<times> transform) py" where
  "register_initial w sb target gdc =
     (let unreg_img = (if target = ''asl'' then Some (asl_vol0 sb)
                       else if target = ''structural'' then Some (perfusion sb)
                       else None)
      in
      bnd (make_gdc_tis_vol1 sb target gdc unreg_img) (\<lambda>unreg_img.
      seq (make_asl2struct_initial w sb target unreg_img)
     (bnd (var ''unreg_img'' unreg_img) (\<lambda>unreg_img.
      bnd (from_flirt (asl2struct_initial_path sb target) unreg_img (struct sb))
        (\<lambda>asl2struct_initial.
      seq (make_asl_mask sb target unreg_img asl2struct_initial)
     (bnd (make_gdc_brain w sb target unreg_img) (\<lambda>unreg_img.
      ret (unreg_img, asl2struct_initial))))))))"

text \<open>Lines 414 to 442: the white matter mask and the EPI distortion correction warp,
  followed by the structural-to-ASL registration when the target is the ASL grid.\<close>

definition make_wmmask :: "path \<Rightarrow> string \<Rightarrow> ('f, unit) py" where
  "make_wmmask sb target =
     bnd (op_exists (wmmask sb)) (\<lambda>present.
     py_when ((\<not> present \<or> force_refresh) \<and> target = ''asl'')
       (bnd (generate_wmmask (aparc_seg sb)) (\<lambda>wmmask_img.
        save_like (struct sb) wmmask_img (wmmask sb))))"

definition make_epidc_warp ::
  "'f world \<Rightarrow> path \<Rightarrow> string \<Rightarrow> path \<Rightarrow> transform \<Rightarrow> ('f, unit) py" where
  "make_epidc_warp w sb target unreg_img asl2struct_initial =
     bnd (op_exists (epi_dc_path sb target)) (\<lambda>present.
     py_when (\<not> present \<or> force_refresh)
       (seq (generate_epidc_warp w unreg_img (struct sb) (struct_brain sb)
               (mask_name sb target) (wmmask sb) asl2struct_initial (fmap sb)
               (fmapmag sb) (fmapmagbrain sb) (distcorr_dir sb))
            (os_replace (epi_dc_path_temp sb) (epi_dc_path sb target))))"

definition load_epidc ::
  "'f world \<Rightarrow> path \<Rightarrow> string \<Rightarrow> path \<Rightarrow> transform \<Rightarrow> ('f, transform) py" where
  "load_epidc w sb target unreg_img asl2struct_initial =
     seq (make_wmmask sb target)
    (seq (make_epidc_warp w sb target unreg_img asl2struct_initial)
    (bnd (from_fnirt (epi_dc_path sb target) (mask_name sb target) (struct sb) True
            (''0.01'', ''100'')) (\<lambda>epi_dc.
     if target = ''asl''
     then bnd (from_flirt (struct2asl_path sb target) (struct sb) (asl_tis sb))
            (\<lambda>struct2asl_aslreg.
          ret (chain [epi_dc, struct2asl_aslreg]))
     else ret epi_dc)))"

text \<open>Lines 444 to 508: the output products. The chain of the ASL series is kept in
  \<^verbatim>\<open>asl2struct_mc_dc\<close> when it was built, and built for the scaling factors
  otherwise. The number of cores given to \<^verbatim>\<open>apply_to_image\<close> is left out.\<close>

definition make_asl_corrected ::
  "path \<Rightarrow> string \<Rightarrow> transform \<Rightarrow> transform \<Rightarrow> transform \<Rightarrow> ('f, transform option) py" where
  "make_asl_corrected sb target asl_mc gdc epi_dc =
     bnd (op_exists (asl_outpath sb target)) (\<lambda>present.
     if \<not> present \<or> force_refresh
     then (let asl2struct_mc_dc = chain [asl_mc, gdc, epi_dc] in
           bnd (apply_to_image asl2struct_mc_dc (asl_stcorr sb) (SpaceOf (reference sb target)))
             (\<lambda>asl_corrected.
           seq (save (asl_outpath sb target) (ImageData asl_corrected))
               (ret (Some asl2struct_mc_dc))))
     else ret None)"

definition make_calib_corrected ::
  "path \<Rightarrow> string \<Rightarrow> transform \<Rightarrow> transform \<Rightarrow> transform \<Rightarrow> ('f, unit) py" where
  "make_calib_corrected sb target calib2asl0 gdc epi_dc =
     bnd (op_exists (calib_outpath sb)) (\<lambda>present.
     py_when ((\<not> present \<or> force_refresh) \<and> target = ''structural'')
       (let calib2struct_dc = chain [calib2asl0, gdc, epi_dc] in
        bnd (apply_to_image calib2struct_dc (calib sb) (SpaceOf (reference sb target)))
          (\<lambda>calib_corrected.
        save (calib_outpath sb) (ImageData calib_corrected))))"

definition make_sfs_corrected ::
  "path \<Rightarrow> string \<Rightarrow> transform option \<Rightarrow> transform \<Rightarrow> transform \<Rightarrow> transform
     \<Rightarrow> ('f, unit) py" where
  "make_sfs_corrected sb target asl2struct_mc_dc asl_mc gdc epi_dc =
     bnd (op_exists (sfs_outpath sb target)) (\<lambda>present.
     py_when (\<not> present \<or> force_refresh)
       (let asl2struct_mc_dc =
              (case asl2struct_mc_dc of Some c \<Rightarrow> c
               | None \<Rightarrow> chain [asl_mc, gdc, epi_dc]) in
        bnd (apply_to_image asl2struct_mc_dc (sfs_name sb) (SpaceOf (reference sb target)))
          (\<lambda>sfs_corrected.
        save (sfs_outpath sb target) (ImageData sfs_corrected))))"

definition make_reg_est_t1 ::
  "path \<Rightarrow> string \<Rightarrow> transform \<Rightarrow> transform \<Rightarrow> transform \<Rightarrow> ('f, unit) py" where
  "make_reg_est_t1 sb target asl_mc gdc epi_dc =
     bnd (op_exists (reg_est_t1_name sb)) (\<lambda>present.
     py_when ((\<not> present \<or> force_refresh) \<and> target = ''structural'')
       (let asl2struct_dc = chain [index_of asl_mc 0, gdc, epi_dc] in
        bnd (apply_to_image asl2struct_dc (est_t1_name sb) (SpaceOf (reference sb target)))
          (\<lambda>reg_est_t1.
        save (reg_est_t1_name sb) (ImageData reg_est_t1))))"

definition make_ti_asl :: "'f world \<Rightarrow> path \<Rightarrow> string \<Rightarrow> ('f, unit) py" where
  "make_ti_asl w sb target =
     bnd (op_exists (ti_asl sb)) (\<lambda>present.
     py_when ((\<not> present \<or> force_refresh) \<and> target = ''asl'')
       (create_ti_image w (asl_stcorr sb)
          (map (literal w) [''1.7'', ''2.2'', ''2.7'', ''3.2'', ''3.7'']) 10
          (literal w ''0.059'') (ti_asl sb)))"

definition make_ti_t1 :: "path \<Rightarrow> string \<Rightarrow> ('f, unit) py" where
  "make_ti_t1 sb target =
     bnd (op_exists (ti_t1 sb)) (\<lambda>present.
     py_when ((\<not> present \<or> force_refresh) \<and> target = ''structural'')
       (bnd (from_flirt (asl2struct_path sb) (asl_stcorr sb) (struct sb)) (\<lambda>asl2struct.
        bnd (apply_to_image asl2struct (ti_asl sb) (SpaceOf (reference sb target)))
          (\<lambda>ti_t1_img.
        save (ti_t1 sb) (ImageData ti_t1_img)))))"

definition write_products ::
  "'f world \<Rightarrow> path \<Rightarrow> string \<Rightarrow> transform \<Rightarrow> transform \<Rightarrow> transform \<Rightarrow> transform
     \<Rightarrow> ('f, unit) py" where
  "write_products w sb target calib2asl0 asl_mc gdc epi_dc =
     bnd (make_asl_corrected sb target asl_mc gdc epi_dc) (\<lambda>asl2struct_mc_dc.
     seq (make_calib_corrected sb target calib2asl0 gdc epi_dc)
    (seq (make_sfs_corrected sb target asl2struct_mc_dc asl_mc gdc epi_dc)
    (seq (make_reg_est_t1 sb target asl_mc gdc epi_dc)
    (seq (make_ti_asl w sb target)
         (make_ti_t1 sb target)))))"

record args =
  arg_study_dir :: string
  arg_sub_number :: string
  arg_grads :: "string option"
  arg_target :: string

definition sub_base_of :: "args \<Rightarrow> path \<Rightarrow> path" where
  "sub_base_of a here = op_abspath here (op_join (arg_study_dir a) [arg_sub_number a])"

definition main :: "'f world \<Rightarrow> args \<Rightarrow> ('f, unit) py" where
  "main w a =
     bnd os_getcwd (\<lambda>here.
     let sub_base = sub_base_of a here;
         target = arg_target a
     in
     bnd (case arg_grads a of None \<Rightarrow> raise TypeError | Some g \<Rightarrow> ret (op_abspath here g))
       (\<lambda>grad_coefficients.
     seq (prepare_inputs w sub_base target)
    (bnd (load_motion sub_base) (\<lambda>(calib2asl0, asl_mc).
     bnd (load_gdc w sub_base target grad_coefficients) (\<lambda>gdc.
     seq (prepare_fmaps w (arg_study_dir a) (arg_sub_number a) sub_base target)
    (bnd (register_initial w sub_base target gdc) (\<lambda>(unreg_img, asl2struct_initial).
     bnd (load_epidc w sub_base target unreg_img asl2struct_initial) (\<lambda>epi_dc.
     write_products w sub_base target calib2asl0 asl_mc gdc epi_dc))))))))"

section \<open>\<^verbatim>\<open>scripts/mt_estimation_pipeline.py\<close>\<close>

text \<open>
  The command line as \<^verbatim>\<open>argparse\<close> receives it: the text given for each option, if
  any, and whether each flag is present.
\<close>

record raw_args =
  raw_studydir :: "string option"
  raw_subjectlist :: "string option"
  raw_roi :: "string option"
  raw_method :: "string option"
  raw_grads :: "string option"
  raw_out :: "string option"
  raw_ignore_dropouts :: bool
  raw_cores :: "string option"
  raw_interpolation :: "string option"
  raw_verbose :: bool
  raw_time :: bool
  raw_no_refresh :: bool

text \<open>The parsed arguments; \<open>method_name\<close> is the attribute \<^verbatim>\<open>args.method\<close>.\<close>

record mt_args =
  studydir :: string
  subjectlist :: string
  roi :: string
  method_name :: string
  grads :: string
  out :: string
  ignore_dropouts :: bool
  cores :: int
  interpolation :: int
  verbose :: bool
  time :: bool
  no_refresh :: bool

text \<open>The keyword arguments bound by \<^verbatim>\<open>partial(setup_mtestimation, ...)\<close>, and those
  of the call of \<^verbatim>\<open>estimate_mt\<close>.\<close>

record setup_kwargs =
  kw_rois :: "string list"
  kw_coeffs_path :: string
  kw_interpolation :: int
  kw_ignore_dropouts :: bool
  kw_force_refresh :: bool

record estimate_kwargs =
  ekw_rois :: "string list"
  ekw_tr :: int
  ekw_method :: string
  ekw_outdir :: string
  ekw_ignore_dropouts :: bool

text \<open>The second component of a setup result: the integer status, or any other object
  (which does not compare equal to 1).\<close>

datatype pyval = PyInt int | PyOther string

datatype mt_event =
    Print string
  | PrintResult "string \<times> pyval"
  | PrintTime
  | SetupCall string setup_kwargs
  | EstimateCall "string list" estimate_kwargs

text \<open>
  What lies outside the script: the conversion \<^verbatim>\<open>int\<close> of a string, the number of
  processors, the resolution of a path that must exist, \<^verbatim>\<open>np.loadtxt\<close>, the current
  directory, and the two functions of the package \<^verbatim>\<open>hcpasl.MTEstimation\<close>, which are
  not in the sources at hand and may return or raise.
\<close>

record mt_world =
  to_int :: "string \<Rightarrow> int option"
  cpu_count :: int
  path_cwd :: string
  resolve_strict :: "string \<Rightarrow> exn + string"
  loadtxt :: "string \<Rightarrow> exn + string list"
  setup_mtestimation :: "string \<Rightarrow> setup_kwargs \<Rightarrow> exn + string \<times> pyval"
  estimate_mt :: "string list \<Rightarrow> estimate_kwargs \<Rightarrow> exn + string list"

definition TR :: int where
  "TR = 8"

definition ROIS :: "(string \<times> string list) list" where
  "ROIS = [(''wm'', [''wm'']), (''gm'', [''gm'']), (''csf'', [''csf'']),
           (''combined'', [''combined'']), (''all'', [''wm'', ''gm'', ''csf'', ''combined''])]"

text \<open>An argument error of \<^verbatim>\<open>argparse\<close> ends the program with status 2.\<close>

definition required :: "string option \<Rightarrow> exn + string" where
  "required v = (case v of None \<Rightarrow> Inl (SystemExit 2) | Some x \<Rightarrow> Inr x)"

definition choice :: "string list \<Rightarrow> string \<Rightarrow> string option \<Rightarrow> exn + string" where
  "choice allowed dflt v =
     (case v of None \<Rightarrow> Inr dflt
      | Some x \<Rightarrow> if x \<in> set allowed then Inr x else Inl (SystemExit 2))"

text \<open>An option with \<^verbatim>\<open>type=int\<close> and \<^verbatim>\<open>choices=range(lo, hi)\<close>: the default is
  taken as it is, a given text is converted and then looked up in the range.\<close>

definition int_choice :: "mt_world \<Rightarrow> int \<Rightarrow> int \<Rightarrow> int \<Rightarrow> string option \<Rightarrow> exn + int" where
  "int_choice w lo hi dflt v =
     (case v of None \<Rightarrow> Inr dflt
      | Some x \<Rightarrow>
          (case to_int w x of None \<Rightarrow> Inl (SystemExit 2)
           | Some i \<Rightarrow> if lo \<le> i \<and> i < hi then Inr i else Inl (SystemExit 2)))"

definition parse_interpolation :: "mt_world \<Rightarrow> string option \<Rightarrow> exn + int" where
  "parse_interpolation w v = int_choice w 0 (5 + 1) 3 v"

definition parse_args :: "mt_world \<Rightarrow> raw_args \<Rightarrow> exn + mt_args" where
  "parse_args w r =
     ebind (required (raw_studydir r)) (\<lambda>a_studydir.
     ebind (required (raw_subjectlist r)) (\<lambda>a_subjectlist.
     ebind (choice [''combined'', ''wm'', ''gm'', ''csf'', ''all''] ''combined'' (raw_roi r))
       (\<lambda>a_roi.
     ebind (choice [''separate'', ''together''] ''separate'' (raw_method r)) (\<lambda>a_method.
     ebind (required (raw_grads r)) (\<lambda>a_grads.
     ebind (int_choice w 1 (cpu_count w + 1) 1 (raw_cores r)) (\<lambda>a_cores.
     ebind (parse_interpolation w (raw_interpolation r)) (\<lambda>a_interpolation.
     Inr \<lparr>studydir = a_studydir, subjectlist = a_subjectlist, roi = a_roi,
          method_name = a_method, grads = a_grads,
          out = (case raw_out r of None \<Rightarrow> path_cwd w | Some x \<Rightarrow> x),
          ignore_dropouts = raw_ignore_dropouts r, cores = a_cores,
          interpolation = a_interpolation, verbose = raw_verbose r, time = raw_time r,
          no_refresh = (\<not> raw_no_refresh r)\<rparr>)))))))"

text \<open>
  \<^verbatim>\<open>pool.map\<close> cuts the subjects into chunks, of a size fixed by their number and the
  number of workers, and runs each chunk in order on one worker. A call that raises ends
  its chunk; the other chunks still run, and \<^verbatim>\<open>map\<close> then raises an exception of a
  failed chunk (here the first one in the order of the subjects). Without an exception
  the results come in the order of the subjects.
\<close>

definition chunksize :: "nat \<Rightarrow> nat \<Rightarrow> nat" where
  "chunksize n workers =
     (let q = n div (workers * 4); extra = n mod (workers * 4)
      in if extra \<noteq> 0 then q + 1 else q)"

function chunks_of :: "nat \<Rightarrow> 'a list \<Rightarrow> 'a list list" where
  "chunks_of k xs = (if xs = [] \<or> k = 0 then [] else take k xs # chunks_of k (drop k xs))"
  by pat_completeness auto
termination
  by (relation "measure (\<lambda>(k, xs). length xs)") auto

declare chunks_of.simps [simp del]

fun gather :: "(exn + 'a) list \<Rightarrow> exn + 'a list" where
  "gather [] = Inr []"
| "gather (r # rs) = ebind r (\<lambda>x. ebind (gather rs) (\<lambda>xs. Inr (x # xs)))"

text \<open>One chunk: the arguments of the calls made, and the results or the exception.\<close>

fun run_chunk :: "('a \<Rightarrow> exn + 'b) \<Rightarrow> 'a list \<Rightarrow> 'a list \<times> (exn + 'b list)" where
  "run_chunk f [] = ([], Inr [])"
| "run_chunk f (x # xs) =
     (case f x of Inl e \<Rightarrow> ([x], Inl e)
      | Inr y \<Rightarrow> (case run_chunk f xs of (called, r) \<Rightarrow>
                    (x # called, ebind r (\<lambda>ys. Inr (y # ys)))))"

definition pool_map ::
  "('a \<Rightarrow> exn + 'b) \<Rightarrow> nat \<Rightarrow> 'a list \<Rightarrow> 'a list \<times> (exn + 'b list)" where
  "pool_map f workers xs =
     (let ran = map (run_chunk f) (chunks_of (chunksize (length xs) workers) xs)
      in (concat (map fst ran), ebind (gather (map snd ran)) (\<lambda>rs. Inr (concat rs))))"

text \<open>Lines 126 to 130: each result is printed, and the subject of a result whose
  second component equals 1 is kept.\<close>

definition report :: "(string \<times> pyval) list \<Rightarrow> mt_event list \<times> string list" where
  "report results =
     foldl (\<lambda>(printed, successful_subs) result.
              (printed @ [PrintResult result],
               if snd result = PyInt 1 then successful_subs @ [fst result]
               else successful_subs))
       ([], []) results"

definition mt_main :: "mt_world \<Rightarrow> raw_args \<Rightarrow> unit outcome \<times> mt_event list" where
  "mt_main w r =
     (case parse_args w r of Inl e \<Rightarrow> (Exc e, [])
      | Inr a \<Rightarrow>
     (case resolve_strict w (studydir a) of Inl e \<Rightarrow> (Exc e, [])
      | Inr a_studydir \<Rightarrow>
     (case resolve_strict w (subjectlist a) of Inl e \<Rightarrow> (Exc e, [])
      | Inr a_subjects \<Rightarrow>
     (case loadtxt w a_subjects of Inl e \<Rightarrow> (Exc e, [])
      | Inr ids \<Rightarrow>
     (let subjects = map (\<lambda>subid. path_div a_studydir subid) ids in
      case map_of ROIS (roi a) of None \<Rightarrow> (Exc (NameError ''KeyError''), [])
      | Some rois \<Rightarrow>
     (let t0 = (if verbose a
                then [Print ''Your study directory'', Print ''You are processing'',
                      Print ''Rois to be used'']
                else []);
          kw = \<lparr>kw_rois = rois, kw_coeffs_path = grads a,
                kw_interpolation = interpolation a,
                kw_ignore_dropouts = ignore_dropouts a,
                kw_force_refresh = no_refresh a\<rparr>;
          (called, outcome) = pool_map (\<lambda>s. setup_mtestimation w s kw) (nat (cores a)) subjects;
          t1 = t0 @ map (\<lambda>s. SetupCall s kw) called
      in
      case outcome of Inl e \<Rightarrow> (Exc e, t1)
      | Inr results \<Rightarrow>
     (let (printed, successful_subs) = report results;
          t2 = t1 @ printed
      in
      if time a \<and> length subjects * 60 = 0 then (Exc ZeroDivisionError, t2)
      else
     (let t3 = t2 @ (if time a then [PrintTime] else []);
          ekw = \<lparr>ekw_rois = rois, ekw_tr = TR, ekw_method = method_name a, ekw_outdir = out a,
                 ekw_ignore_dropouts = ignore_dropouts a\<rparr>;
          t4 = t3 @ [EstimateCall successful_subs ekw]
      in
      case estimate_mt w successful_subs ekw of Inl e \<Rightarrow> (Exc e, t4)
      | Inr errors \<Rightarrow> (Val (), t4 @ map Print errors)))))))))"

section \<open>What a run of the driver is observed to do\<close>

text \<open>The events that a computation adds to the trace from a given state.\<close>

definition events_of :: "('f, 'a) py \<Rightarrow> 'f state \<Rightarrow> 'f event list" where
  "events_of m s = drop (length (trace s)) (trace (snd (m s)))"

text \<open>
  The transforms that \<^verbatim>\<open>main\<close> loads, as functions of the subject's directory and of the
  target: the motion correction rebased to volume 0 of the series, the registration of
  the calibration image to that volume, the gradient distortion correction warp, and the
  EPI distortion correction warp with what is chained to it.
\<close>

definition calib2asl0_of :: "path \<Rightarrow> transform" where
  "calib2asl0_of sb = [Inverse (McVolume (mcdir sb) (asl_tis sb) (calib sb) 0)]"

definition asl_mc_of :: "path \<Rightarrow> transform" where
  "asl_mc_of sb = [McFlirt (mcdir sb) (asl_tis sb) (calib sb)] @ calib2asl0_of sb"

definition gdc_warp :: "path \<Rightarrow> transform" where
  "gdc_warp sb = [Fnirt (gdc_path sb) (asl_vol0 sb) (asl_vol0 sb) True (''0.01'', ''100'')]"

definition epi_warp :: "path \<Rightarrow> string \<Rightarrow> transform" where
  "epi_warp sb target =
     [Fnirt (epi_dc_path sb target) (mask_name sb target) (struct sb) True (''0.01'', ''100'')]"

definition struct2asl :: "path \<Rightarrow> string \<Rightarrow> transform" where
  "struct2asl sb target = [Flirt (struct2asl_path sb target) (struct sb) (asl_tis sb)]"

definition epi_dc_of :: "path \<Rightarrow> string \<Rightarrow> transform" where
  "epi_dc_of sb target =
     epi_warp sb target @ (if target = ''asl'' then struct2asl sb target else [])"

text \<open>
  A resampled image written to a file: the file, the chain, the image resampled and the
  grid it is resampled onto. The list holds every such product of \<^verbatim>\<open>main\<close>.
\<close>

fun product_of :: "'f event \<Rightarrow> (path \<times> transform \<times> path \<times> space) option" where
  "product_of (Save p (ImageData (Resampled t (FromFile src) ref))) = Some (p, t, src, ref)"
| "product_of e = None"

definition products :: "path \<Rightarrow> string \<Rightarrow> (path \<times> transform \<times> path \<times> space) list" where
  "products sb target =
     [(asl_outpath sb target, asl_mc_of sb @ gdc_warp sb @ epi_dc_of sb target,
         asl_stcorr sb, SpaceOf (reference sb target)),
      (calib_outpath sb, calib2asl0_of sb @ gdc_warp sb @ epi_dc_of sb target,
         calib sb, SpaceOf (reference sb target)),
      (sfs_outpath sb target, asl_mc_of sb @ gdc_warp sb @ epi_dc_of sb target,
         sfs_name sb, SpaceOf (reference sb target)),
      (reg_est_t1_name sb, index_of (asl_mc_of sb) 0 @ gdc_warp sb @ epi_dc_of sb target,
         est_t1_name sb, SpaceOf (reference sb target)),
      (ti_t1 sb, [Flirt (asl2struct_path sb) (asl_stcorr sb) (struct sb)],
         ti_asl sb, SpaceOf (reference sb target)),
      (gdc_tis_vol1_name sb target, gdc_warp sb, asl_vol0 sb, SpaceOf (asl_vol0 sb)),
      (t1_asl_grid sb, [Identity], struct sb, Resized (struct sb) (asl_stcorr sb))]"

text \<open>Every transform through which an event resamples an image or that it stores.\<close>

fun image_xforms :: "'f image \<Rightarrow> xform list" where
  "image_xforms (Resampled t img ref) = t @ image_xforms img"
| "image_xforms (Binarised img) = image_xforms img"
| "image_xforms (FillHoles img) = image_xforms img"
| "image_xforms (Stacked a b) = image_xforms a @ image_xforms b"
| "image_xforms (TimesTwoPi img) = image_xforms img"
| "image_xforms (MeanLast img) = image_xforms img"
| "image_xforms (WmMask img) = image_xforms img"
| "image_xforms (FromFile p) = []"
| "image_xforms (TiArray a) = []"

fun event_xforms :: "'f event \<Rightarrow> xform list" where
  "event_xforms (Save p (ImageData img)) = image_xforms img"
| "event_xforms (Save p (MatData t src ref)) = t"
| "event_xforms (Call d (Bet img output) rc) = image_xforms img"
| "event_xforms e = []"

text \<open>A dense warp has intensity correction switched on; other transforms have no
  such switch.\<close>

fun intensity_corrected :: "xform \<Rightarrow> bool" where
  "intensity_corrected (Fnirt p src ref ic cj) = ic"
| "intensity_corrected (Inverse x) = intensity_corrected x"
| "intensity_corrected x = True"

text \<open>The working directories in which the commands of a trace were started.\<close>

fun call_dirs :: "'f event list \<Rightarrow> string list" where
  "call_dirs [] = []"
| "call_dirs (Call d c rc # es) = d # call_dirs es"
| "call_dirs (e # es) = call_dirs es"

section \<open>Observations and example inputs\<close>

text \<open>The interpolation orders that the calls of \<^verbatim>\<open>setup_mtestimation\<close> received.\<close>

definition setup_interpolations :: "mt_event list \<Rightarrow> int list" where
  "setup_interpolations t = concat (map (\<lambda>e. case e of SetupCall s kw \<Rightarrow> [kw_interpolation kw] | _ \<Rightarrow> []) t)"

text \<open>The calls of \<^verbatim>\<open>setup_mtestimation\<close>, in order: the subject and the keyword
  arguments of each.\<close>

definition setup_calls :: "mt_event list \<Rightarrow> (string \<times> setup_kwargs) list" where
  "setup_calls t = concat (map (\<lambda>e. case e of SetupCall s kw \<Rightarrow> [(s, kw)] | _ \<Rightarrow> []) t)"

text \<open>The keyword arguments of the setup calls, from the parsed arguments.\<close>

definition rois_of :: "mt_args \<Rightarrow> string list" where
  "rois_of a = (case map_of ROIS (roi a) of Some rois \<Rightarrow> rois | None \<Rightarrow> [])"

definition setup_kw :: "mt_args \<Rightarrow> setup_kwargs" where
  "setup_kw a = \<lparr>kw_rois = rois_of a, kw_coeffs_path = grads a,
                kw_interpolation = interpolation a,
                kw_ignore_dropouts = ignore_dropouts a,
                kw_force_refresh = no_refresh a\<rparr>"

text \<open>The keyword arguments of the call of \<^verbatim>\<open>estimate_mt\<close>, and what \<^verbatim>\<open>--verbose\<close>
  prints before the setup.\<close>

definition estimate_kw :: "mt_args \<Rightarrow> estimate_kwargs" where
  "estimate_kw a = \<lparr>ekw_rois = rois_of a, ekw_tr = TR, ekw_method = method_name a,
                   ekw_outdir = out a, ekw_ignore_dropouts = ignore_dropouts a\<rparr>"

definition verbose_prints :: "mt_args \<Rightarrow> mt_event list" where
  "verbose_prints a =
     (if verbose a
      then [Print ''Your study directory'', Print ''You are processing'',
            Print ''Rois to be used'']
      else [])"

text \<open>A decimal reading of \<^verbatim>\<open>int\<close>, for the example below.\<close>

fun digits_value :: "int \<Rightarrow> string \<Rightarrow> int option" where
  "digits_value acc [] = Some acc"
| "digits_value acc (c # cs) =
     (if CHR ''0'' \<le> c \<and> c \<le> CHR ''9''
      then digits_value (10 * acc + (of_char c - 48)) cs else None)"

definition decimal :: "string \<Rightarrow> int option" where
  "decimal s =
     (case s of [] \<Rightarrow> None
      | c # cs \<Rightarrow> if c = CHR ''-'' then (if cs = [] then None else map_option uminus (digits_value 0 cs))
                  else digits_value 0 s)"

text \<open>Three subjects, the second of which fails in its setup.\<close>

definition mt_world0 :: mt_world where
  "mt_world0 = \<lparr>to_int = decimal, cpu_count = 4, path_cwd = ''/work'',
     resolve_strict = (\<lambda>p. if p \<in> set [''/study'', ''/study/subjects.txt''] then Inr p else Inl (FileNotFoundError p)),
     loadtxt = (\<lambda>p. Inr [''HCA1'', ''HCA2'', ''HCA3'']),
     setup_mtestimation = (\<lambda>s kw. Inr (s, if s = ''/study/HCA2'' then PyOther ''RuntimeError'' else PyInt 1)),
     estimate_mt = (\<lambda>subs kw. Inr [])\<rparr>"

definition raw0 :: raw_args where
  "raw0 = \<lparr>raw_studydir = Some ''/study'', raw_subjectlist = Some ''/study/subjects.txt'',
     raw_roi = None, raw_method = None, raw_grads = Some ''coeff.grad'', raw_out = None,
     raw_ignore_dropouts = False, raw_cores = Some ''2'', raw_interpolation = Some ''2'',
     raw_verbose = False, raw_time = True, raw_no_refresh = False\<rparr>"
definition args0 :: mt_args where
  "args0 = \<lparr>studydir = ''/study'', subjectlist = ''/study/subjects.txt'', roi = ''combined'',
     method_name = ''separate'', grads = ''coeff.grad'', out = ''/work'', ignore_dropouts = False,
     cores = 2, interpolation = 2, verbose = False, time = True, no_refresh = True\<rparr>"


text \<open>A grid of 2 by 2 by 6 voxels, with integers standing for the floating-point
  numbers.\<close>

definition ti_world :: "int world" where
  "ti_world = \<lparr>run_tool = (\<lambda>c k f. (0, f)), grid_size = (\<lambda>d. (2, 2, 6)), fadd = (+), fmul = (*),
               of_integer = id, literal = (\<lambda>s. 0)\<rparr>"

definition ti_state :: "int state" where
  "ti_state = \<lparr>fs = [(''/data/asl.nii.gz'', File (Opaque 0))], cwd = ''/data'', trace = []\<rparr>"

text \<open>A session with four field-map directories; the spin-echo field maps of the
  last two are those of the ASL acquisition.\<close>

definition fm_state :: "int state" where
  "fm_state = \<lparr>fs =
      [(''/study/S1/S1_V1_B/scans/26-FieldMap_SE_EPI'', Dir),
       (''/study/S1/S1_V1_B/scans/27-FieldMap_SE_EPI'', Dir),
       (''/study/S1/S1_V1_B/scans/38-FieldMap_SE_EPI'', Dir),
       (''/study/S1/S1_V1_B/scans/39-FieldMap_SE_EPI'', Dir),
       (''/study/S1/S1_V1_B/scans/38-FieldMap_SE_EPI/resources/NIFTI/files/S1_V1_B_PCASLhr_SpinEchoFieldMap_AP.nii.gz'', File (Opaque 1)),
       (''/study/S1/S1_V1_B/scans/39-FieldMap_SE_EPI/resources/NIFTI/files/S1_V1_B_PCASLhr_SpinEchoFieldMap_PA.nii.gz'', File (Opaque 2))],
     cwd = ''/home'', trace = []\<rparr>"

section \<open>The timing image\<close>

lemma ebind_Inr: "ebind r f = Inr y \<longleftrightarrow> (\<exists>x. r = Inr x \<and> f x = Inr y)"
  by (cases r) (simp_all add: ebind_def)

lemma ravel_less: "list_all2 (<) idx sh \<Longrightarrow> ravel sh idx < prod_list sh"
proof (induction idx sh rule: list_all2_induct)
  case Nil then show ?case by simp
next
  case (Cons i idx n ns)
  have "i * prod_list ns + ravel ns idx < i * prod_list ns + prod_list ns"
    using Cons.IH by simp
  also have "\<dots> = Suc i * prod_list ns" by simp
  also have "\<dots> \<le> n * prod_list ns"
    using Cons.hyps(1) by (intro mult_le_mono1) simp
  finally show ?case by simp
qed

lemma unravel_ravel: "list_all2 (<) idx sh \<Longrightarrow> unravel sh (ravel sh idx) = idx"
proof (induction idx sh rule: list_all2_induct)
  case Nil then show ?case by simp
next
  case (Cons i idx n ns)
  from ravel_less[OF Cons.hyps(2)] show ?case
    using Cons.IH by simp
qed

lemma item_mk_array:
  assumes "list_all2 (<) idx sh"
  shows "item (mk_array sh f) idx = f idx"
  using ravel_less[OF assms] unravel_ravel[OF assms]
  by (simp add: item_def mk_array_def)

lemma concat_replicate_nth:
  "i < r * length xs \<Longrightarrow> concat (replicate r xs) ! i = xs ! (i mod length xs)"
proof (induction r arbitrary: i)
  case 0 then show ?case by simp
next
  case (Suc r)
  show ?case
  proof (cases "i < length xs")
    case True then show ?thesis by (simp add: nth_append)
  next
    case False
    then have "i - length xs < r * length xs" using Suc.prems by simp
    from Suc.IH[OF this] False show ?thesis
      by (simp add: nth_append le_mod_geq)
  qed
qed

lemma concat_map_replicate_nth:
  "t < length tis \<Longrightarrow> r < P \<Longrightarrow> concat (map (replicate P) tis) ! (t * P + r) = tis ! t"
proof (induction tis arbitrary: t)
  case Nil then show ?case by simp
next
  case (Cons u us)
  show ?case
  proof (cases t)
    case 0 with Cons.prems show ?thesis by (simp add: nth_append)
  next
    case (Suc t')
    with Cons.prems have "t' < length us" by simp
    from Cons.IH[OF this Cons.prems(2)] Suc show ?thesis
      by (simp add: nth_append add.assoc)
  qed
qed

lemma np_tile_arange:
  assumes "np_tile (np_arange sb) r = Inr t"
  shows "shape t = [nat sb * nat r]" "length (data t) = nat sb * nat r"
    "i < nat sb * nat r \<Longrightarrow> data t ! i = int (i mod nat sb)"
proof -
  from assms have t: "t = \<lparr>shape = [nat sb * nat r], data = concat (replicate (nat r) (map int [0..<nat sb]))\<rparr>"
    by (auto simp: np_tile_def np_arange_def split: if_splits)
  show "shape t = [nat sb * nat r]" by (simp add: t)
  show "length (data t) = nat sb * nat r"
    by (simp add: t length_concat sum_list_replicate mult.commute)
  show "data t ! i = int (i mod nat sb)" if "i < nat sb * nat r"
  proof -
    from that have pos: "0 < nat sb" by (cases "nat sb") auto
    have "i < nat r * length (map int [0..<nat sb])" using that by (simp add: mult.commute)
    from concat_replicate_nth[OF this] pos show ?thesis by (simp add: t)
  qed
qed

lemma np_transpose_stack:
  assumes "np_transpose (np_array (map (\<lambda>x. np_tile_scalar x [nx, ny, nz]) tis)) [1, 2, 3, 0] = Inr a"
  shows "tis \<noteq> []" "shape a = [nx, ny, nz, length tis]"
     "x < nx \<Longrightarrow> y < ny \<Longrightarrow> z < nz \<Longrightarrow> t < length tis \<Longrightarrow> item a [x, y, z, t] = tis ! t"
proof -
  let ?st = "np_array (map (\<lambda>x. np_tile_scalar x [nx, ny, nz]) tis)"
  from assms show ne: "tis \<noteq> []"
    by (auto simp: np_transpose_def np_array_def split: if_splits)
  then have sh: "shape ?st = [length tis, nx, ny, nz]"
    by (cases tis) (simp_all add: np_array_def np_tile_scalar_def)
  have dt: "data ?st = concat (map (replicate (nx * (ny * nz))) tis)"
    by (simp add: np_array_def np_tile_scalar_def comp_def)
  have up: "[0..<4] = [0, 1, 2, 3::nat]" by (simp add: upt_rec)
  have a: "a = mk_array [nx, ny, nz, length tis]
      (\<lambda>idx. item ?st (map (\<lambda>j. idx ! position j [1, 2, 3, 0]) [0..<4]))"
    using assms by (auto simp: np_transpose_def sh up split: if_splits)
  show "shape a = [nx, ny, nz, length tis]"
    by (simp add: a mk_array_def)
  show "item a [x, y, z, t] = tis ! t" if b: "x < nx" "y < ny" "z < nz" "t < length tis"
  proof -
    have v: "list_all2 (<) [x, y, z, t] [nx, ny, nz, length tis]" using b by simp
    have v3: "list_all2 (<) [x, y, z] [nx, ny, nz]" using b by simp
    have r: "x * (ny * nz) + (y * nz + z) < nx * (ny * nz)"
      using ravel_less[OF v3] by simp
    have "item a [x, y, z, t] = item ?st [t, x, y, z]"
      by (simp add: a item_mk_array[OF v] up)
    also have "\<dots> = concat (map (replicate (nx * (ny * nz))) tis) ! (t * (nx * (ny * nz)) + (x * (ny * nz) + (y * nz + z)))"
      by (simp add: item_def sh dt)
    also have "\<dots> = tis ! t"
      by (rule concat_map_replicate_nth[OF b(4) r])
    finally show ?thesis .
  qed
qed

lemma np_binop_slices:
  assumes "np_binop f a b = Inr c" "shape a = [nx, ny, nz, nt]" "shape b = [1, 1, nz, 1]"
  shows "shape c = [nx, ny, nz, nt]"
    "x < nx \<Longrightarrow> y < ny \<Longrightarrow> z < nz \<Longrightarrow> t < nt \<Longrightarrow>
       item c [x, y, z, t] = f (item a [x, y, z, t]) (item b [0, 0, z, 0])"
proof -
  have c: "c = mk_array [nx, ny, nz, nt]
                (\<lambda>idx. f (item a (bcast_index (shape a) idx))
                                 (item b (bcast_index (shape b) idx)))"
    using assms by (auto simp: np_binop_def pad_shape_def Let_def split: if_splits)
  show "shape c = [nx, ny, nz, nt]"
    by (simp add: c mk_array_def)
  show "item c [x, y, z, t] = f (item a [x, y, z, t]) (item b [0, 0, z, 0])"
    if b: "x < nx" "y < ny" "z < nz" "t < nt"
  proof -
    have v: "list_all2 (<) [x, y, z, t] [nx, ny, nz, nt]" using b by simp
    have ia: "bcast_index (shape a) [x, y, z, t] = [x, y, z, t]"
      using b by (auto simp: assms(2) bcast_index_def)
    have ib: "item b (bcast_index (shape b) [x, y, z, t]) = item b [0, 0, z, 0]"
      using b by (auto simp: assms(3) bcast_index_def item_def)
    show ?thesis by (simp add: c item_mk_array[OF v] ia ib)
  qed
qed

lemma ti_array_Inr:
  assumes "ti_array w (nx, ny, nz) tis sb dt = Inr arr"
  shows "shape arr = [nx, ny, nz, length tis]"
    and "x < nx \<Longrightarrow> y < ny \<Longrightarrow> z < nz \<Longrightarrow> t < length tis \<Longrightarrow>
      item arr [x, y, z, t] = fadd w (tis ! t) (fmul w (of_integer w (int z mod sb)) dt)"
proof -
  from assms obtain tiled sib ti where
    t1: "np_tile (np_arange sb) (int nz div sb) = Inr tiled" and
    t2: "np_reshape tiled [1, 1, nz, 1] = Inr sib" and
    t3: "np_transpose (np_array (map (\<lambda>x. np_tile_scalar x [nx, ny, nz]) tis)) [1, 2, 3, 0] = Inr ti" and
    t4: "np_binop (fadd w) ti (np_map (\<lambda>k. fmul w (of_integer w k) dt) sib) = Inr arr"
    by (auto simp: ti_array_def ebind_Inr)
  note a = np_tile_arange[OF t1]
  from t2 have sib: "sib = \<lparr>shape = [1, 1, nz, 1], data = data tiled\<rparr>"
    and len: "nz = nat sb * nat (int nz div sb)"
    by (auto simp: np_reshape_def a(2) split: if_splits)
  note c = np_transpose_stack[OF t3]
  let ?b = "np_map (\<lambda>k. fmul w (of_integer w k) dt) sib"
  have shb: "shape ?b = [1, 1, nz, 1]"
    by (simp add: np_map_def sib)
  note d = np_binop_slices[OF t4 c(2) shb]
  show "shape arr = [nx, ny, nz, length tis]" by (rule d(1))
  show "item arr [x, y, z, t] = fadd w (tis ! t) (fmul w (of_integer w (int z mod sb)) dt)"
    if x: "x < nx" and y: "y < ny" and z: "z < nz" and t: "t < length tis"
  proof -
    have pos: "0 < sb"
    proof (rule ccontr)
      assume "\<not> 0 < sb"
      then have "nat sb = 0" by simp
      with len z show False by simp
    qed
    have m: "int (z mod nat sb) = int z mod sb" using pos by (simp add: zmod_int)
    have zl: "z < nat sb * nat (int nz div sb)" using z len by simp
    have zd: "z < length (data tiled)" using zl a(2) by simp
    have "item ?b [0, 0, z, 0] = fmul w (of_integer w (data tiled ! z)) dt"
      using zd by (simp add: item_def np_map_def sib)
    also have "\<dots> = fmul w (of_integer w (int z mod sb)) dt"
      using a(3)[OF zl] m by simp
    finally show ?thesis
      using d(2)[OF x y z t] c(3)[OF x y z t] by simp
  qed
qed

lemma ti_array_total:
  assumes "0 < sb" "sb dvd int nz" "tis \<noteq> []"
  shows "\<exists>arr. ti_array w (nx, ny, nz) tis sb dt = Inr arr"
proof -
  from assms(2) obtain q where q: "int nz = sb * q" by (auto simp: dvd_def)
  have q0: "0 \<le> q"
  proof (rule ccontr)
    assume "\<not> 0 \<le> q"
    then have "sb * q < 0" using assms(1) by (simp add: mult_pos_neg)
    with q show False by simp
  qed
  have dq: "int nz div sb = q" using q assms(1) by simp
  have "int (nat sb * nat q) = int nz" using q q0 assms(1) by simp
  then have nz: "nat sb * nat q = nz" by (simp only: of_nat_eq_iff)
  obtain u us where tis: "tis = u # us" using assms(3) by (cases tis) auto
  have l: "length (concat (replicate (nat q) (map int [0..<nat sb]))) = nz"
    using nz by (simp add: length_concat sum_list_replicate mult.commute)
  show ?thesis
    using assms(1) q0 l
    by (simp add: ti_array_def ebind_def np_tile_def np_arange_def np_reshape_def dq
         np_transpose_def np_array_def np_tile_scalar_def np_binop_def np_map_def pad_shape_def tis
         mk_array_def)
qed

lemma lookup_save:
  assumes "save p d s = (Val (), s')"
  shows "lookup s' p = Some (File d)"
  using assms
  by (auto simp: save_def lookup_def Let_def update_conv' split: option.splits entry.splits)

lemma save_total: "lookup s p \<noteq> Some Dir \<Longrightarrow> \<exists>s'. save p d s = (Val (), s')"
  by (auto simp: save_def lookup_def Let_def split: option.splits entry.splits)

lemma load_File: "lookup s p = Some (File d) \<Longrightarrow> load p s = (Val d, s)"
  by (simp add: load_def)

lemma create_ti_image_unfold:
  assumes "lookup s asl = Some (File d)"
  shows "create_ti_image w asl tis sb dt outname s =
     (case ti_array w (grid_size w d) tis sb dt of
        Inl e \<Rightarrow> (Exc e, s)
      | Inr arr \<Rightarrow> save outname (ImageData (TiArray arr)) s)"
  by (simp add: create_ti_image_def bnd_def load_File[OF assms] lift_def raise_def ret_def
        split: sum.splits)

text \<open>
  C9. When the slice-band size divides the number of slices of the reference grid, the
  image that \<^verbatim>\<open>create_ti_image\<close> saves has one timepoint per entry of \<open>tis\<close> and, at
  slice \<open>z\<close> and timepoint \<open>t\<close>, the value \<open>tis[t] + (z mod sliceband) * slicedt\<close>, whatever
  the in-plane position; and for a positive band size and at least one entry of \<open>tis\<close>
  the image is saved.
\<close>

theorem create_ti_image_values:
  assumes f: "lookup s asl = Some (File d)"
    and g: "grid_size w d = (nx, ny, nz)"
    and dv: "sliceband dvd int nz"
  shows "(\<forall>s'. create_ti_image w asl tis sliceband slicedt outname s = (Val (), s') \<longrightarrow>
            (\<exists>arr. lookup s' outname = Some (File (ImageData (TiArray arr)))
               \<and> shape arr = [nx, ny, nz, length tis]
               \<and> (\<forall>x<nx. \<forall>y<ny. \<forall>z<nz. \<forall>t<length tis.
                     item arr [x, y, z, t] =
                       fadd w (tis ! t) (fmul w (of_integer w (int z mod sliceband)) slicedt))))
       \<and> (0 < sliceband \<and> tis \<noteq> [] \<and> lookup s outname \<noteq> Some Dir \<longrightarrow>
            (\<exists>s'. create_ti_image w asl tis sliceband slicedt outname s = (Val (), s')))"
proof (intro conjI allI impI)
  fix s'
  assume r: "create_ti_image w asl tis sliceband slicedt outname s = (Val (), s')"
  note u = create_ti_image_unfold[OF f, of w tis sliceband slicedt outname, unfolded g]
  obtain arr where a: "ti_array w (nx, ny, nz) tis sliceband slicedt = Inr arr"
    and sv: "save outname (ImageData (TiArray arr)) s = (Val (), s')"
  proof (cases "ti_array w (nx, ny, nz) tis sliceband slicedt")
    case (Inl e)
    with r u show ?thesis by simp
  next
    case (Inr arr)
    with r u have "save outname (ImageData (TiArray arr)) s = (Val (), s')" by simp
    with Inr that show ?thesis by blast
  qed
  have "lookup s' outname = Some (File (ImageData (TiArray arr)))"
    by (rule lookup_save[OF sv])
  moreover have "shape arr = [nx, ny, nz, length tis]"
    by (rule ti_array_Inr(1)[OF a])
  moreover have "\<forall>x<nx. \<forall>y<ny. \<forall>z<nz. \<forall>t<length tis.
      item arr [x, y, z, t] = fadd w (tis ! t) (fmul w (of_integer w (int z mod sliceband)) slicedt)"
    by (intro allI impI) (rule ti_array_Inr(2)[OF a])
  ultimately show "\<exists>arr. lookup s' outname = Some (File (ImageData (TiArray arr)))
               \<and> shape arr = [nx, ny, nz, length tis]
               \<and> (\<forall>x<nx. \<forall>y<ny. \<forall>z<nz. \<forall>t<length tis.
                     item arr [x, y, z, t] =
                       fadd w (tis ! t) (fmul w (of_integer w (int z mod sliceband)) slicedt))"
    by (intro exI[of _ arr] conjI)
next
  assume h: "0 < sliceband \<and> tis \<noteq> [] \<and> lookup s outname \<noteq> Some Dir"
  note u = create_ti_image_unfold[OF f, of w tis sliceband slicedt outname, unfolded g]
  from h dv obtain arr where a: "ti_array w (nx, ny, nz) tis sliceband slicedt = Inr arr"
    using ti_array_total[of sliceband nz tis w nx ny slicedt] by blast
  from h obtain s' where "save outname (ImageData (TiArray arr)) s = (Val (), s')"
    using save_total[of s outname "ImageData (TiArray arr)"] by blast
  then have "create_ti_image w asl tis sliceband slicedt outname s = (Val (), s')"
    by (simp add: u a)
  then show "\<exists>s'. create_ti_image w asl tis sliceband slicedt outname s = (Val (), s')" ..
qed

theorem create_ti_image_values_witness:
  "\<exists>s' arr. create_ti_image ti_world ''asl.nii.gz'' [1700, 2200] 3 59 ''ti.nii.gz'' ti_state = (Val (), s')
     \<and> lookup s' ''ti.nii.gz'' = Some (File (ImageData (TiArray arr)))
     \<and> shape arr = [2, 2, 6, 2]
     \<and> item arr [1, 0, 4, 1] = 2200 + 1 * 59"
proof -
  have f: "lookup ti_state ''asl.nii.gz'' = Some (File (Opaque 0))" by code_simp
  have g: "grid_size ti_world (Opaque 0) = (2, 2, 6)" by (simp add: ti_world_def)
  have dv: "(3::int) dvd int 6" by simp
  have o: "lookup ti_state ''ti.nii.gz'' \<noteq> Some Dir" by code_simp
  note t = create_ti_image_values[OF f g dv, of "[1700, 2200]" 59 "''ti.nii.gz''"]
  have "\<exists>s'. create_ti_image ti_world ''asl.nii.gz'' [1700, 2200] 3 59 ''ti.nii.gz'' ti_state = (Val (), s')"
    using t[THEN conjunct2] o by simp
  then obtain s' where
    r: "create_ti_image ti_world ''asl.nii.gz'' [1700, 2200] 3 59 ''ti.nii.gz'' ti_state = (Val (), s')"
    by blast
  from t[THEN conjunct1, rule_format, OF r] obtain arr where
    l: "lookup s' ''ti.nii.gz'' = Some (File (ImageData (TiArray arr)))" and
    sh: "shape arr = [2, 2, 6, length [1700, 2200 :: int]]" and
    v: "\<forall>x<2. \<forall>y<2. \<forall>z<6. \<forall>t<length [1700, 2200 :: int].
          item arr [x, y, z, t] =
            fadd ti_world ([1700, 2200] ! t) (fmul ti_world (of_integer ti_world (int z mod 3)) 59)"
    by blast
  have "item arr [1, 0, 4, 1] =
          fadd ti_world ([1700, 2200] ! 1) (fmul ti_world (of_integer ti_world (int 4 mod 3)) 59)"
    using v[rule_format, of 1 0 4 1] by simp
  then have "item arr [1, 0, 4, 1] = 2200 + 1 * 59"
    by (simp add: ti_world_def)
  with r l sh show ?thesis by auto
qed

section \<open>The field maps of a subject\<close>

lemma glob_suffix_state: "snd (glob_suffix d e s) = s"
  by (simp add: glob_suffix_def Let_def)

lemma fm_dirs_of_glob:
  assumes "glob_suffix (path_div (path_div (pure_path sd) sn) (sn @ ''_V1_B/scans'')) ''-FieldMap_SE_EPI'' s = (Val found, s')"
  shows "fm_dirs_of sd sn s = (Val (last_two (sort_key path_parts found)), s)"
proof -
  from assms glob_suffix_state[of "path_div (path_div (pure_path sd) sn) (sn @ ''_V1_B/scans'')" "''-FieldMap_SE_EPI''" s]
  have "s' = s" by simp
  with assms show ?thesis by (simp add: fm_dirs_of_def bnd_def ret_def)
qed

lemma length_last_two: "length (last_two xs) = min 2 (length xs)"
  by (auto simp: last_two_def)

lemma find_field_maps_unfold:
  assumes "fm_dirs_of sd sn s = (Val ds, s)"
  shows "find_field_maps sd sn s =
    (case ds of
       [] \<Rightarrow> (Exc IndexError, s)
     | [a] \<Rightarrow> (if lookup s (path_div a (pa_name sn)) \<noteq> None then (Exc ValueError, s) else (Exc IndexError, s))
     | [a, b] \<Rightarrow>
         (if lookup s (path_div a (pa_name sn)) \<noteq> None
          then (Val (path_div a (pa_name sn), path_div b (ap_name sn)), s)
          else if lookup s (path_div b (pa_name sn)) \<noteq> None
          then (Val (path_div b (pa_name sn), path_div a (ap_name sn)), s)
          else (Exc (NameError ''pa_dir''), s))
     | a # b # c # cs \<Rightarrow> find_field_maps sd sn s)"
  using assms
  by (auto simp: find_field_maps_def bnd_def ret_def raise_def subscript_def unpack2_def
        op_exists_def var_def split: list.splits)

text \<open>
  C10. A pair returned by \<^verbatim>\<open>find_field_maps\<close> is made of the last two field-map
  directories in sorted order, the first path from the one that holds the PA file; when
  neither of the two holds the PA file, and when fewer than two directories exist, the
  function raises and the state is as it was.
\<close>

theorem find_field_maps_last_two:
  fixes s :: "'f state"
  assumes g: "glob_suffix (path_div (path_div (pure_path sd) sn) (sn @ ''_V1_B/scans'')) ''-FieldMap_SE_EPI'' s = (Val found, s')"
  defines "ds \<equiv> last_two (sort_key path_parts found)"
  shows "(\<forall>pa ap t. find_field_maps sd sn s = (Val (pa, ap), t) \<longrightarrow>
            t = s \<and> (\<exists>a b. ds = [a, b] \<and>
              (pa = path_div a (pa_name sn) \<and> ap = path_div b (ap_name sn)
                 \<and> lookup s (path_div a (pa_name sn)) \<noteq> None
               \<or> pa = path_div b (pa_name sn) \<and> ap = path_div a (ap_name sn)
                 \<and> lookup s (path_div b (pa_name sn)) \<noteq> None)))
       \<and> (list_all (\<lambda>d. lookup s (path_div d (pa_name sn)) = None) ds \<longrightarrow>
            (\<exists>e. find_field_maps sd sn s = (Exc e, s)))
       \<and> (length found < 2 \<longrightarrow> (\<exists>e. find_field_maps sd sn s = (Exc e, s)))"
proof -
  have fm: "fm_dirs_of sd sn s = (Val ds, s)"
    unfolding ds_def by (rule fm_dirs_of_glob[OF g])
  note u = find_field_maps_unfold[OF fm]
  have len: "length ds = min 2 (length found)"
    by (simp add: ds_def length_last_two)
  show ?thesis
  proof (intro conjI allI impI)
    fix pa ap t
    assume r: "find_field_maps sd sn s = (Val (pa, ap), t)"
    show "t = s"
      using r u len by (auto split: list.splits if_splits)
    show "\<exists>a b. ds = [a, b] \<and>
              (pa = path_div a (pa_name sn) \<and> ap = path_div b (ap_name sn)
                 \<and> lookup s (path_div a (pa_name sn)) \<noteq> None
               \<or> pa = path_div b (pa_name sn) \<and> ap = path_div a (ap_name sn)
                 \<and> lookup s (path_div b (pa_name sn)) \<noteq> None)"
      using r u len by (auto split: list.splits if_splits)
  next
    assume "list_all (\<lambda>d. lookup s (path_div d (pa_name sn)) = None) ds"
    then show "\<exists>e. find_field_maps sd sn s = (Exc e, s)"
      using u len by (auto split: list.splits)
  next
    assume "length found < 2"
    with len have "length ds < 2" by simp
    then show "\<exists>e. find_field_maps sd sn s = (Exc e, s)"
      using u by (auto split: list.splits)
  qed
qed

theorem find_field_maps_last_two_witness:
  "find_field_maps ''/study'' ''S1'' fm_state =
     (Val (''/study/S1/S1_V1_B/scans/39-FieldMap_SE_EPI/resources/NIFTI/files/S1_V1_B_PCASLhr_SpinEchoFieldMap_PA.nii.gz'',
           ''/study/S1/S1_V1_B/scans/38-FieldMap_SE_EPI/resources/NIFTI/files/S1_V1_B_PCASLhr_SpinEchoFieldMap_AP.nii.gz''),
      fm_state)
   \<and> last_two (sort_key path_parts
        [''/study/S1/S1_V1_B/scans/26-FieldMap_SE_EPI'', ''/study/S1/S1_V1_B/scans/27-FieldMap_SE_EPI'',
         ''/study/S1/S1_V1_B/scans/38-FieldMap_SE_EPI'', ''/study/S1/S1_V1_B/scans/39-FieldMap_SE_EPI''])
      = [''/study/S1/S1_V1_B/scans/38-FieldMap_SE_EPI'', ''/study/S1/S1_V1_B/scans/39-FieldMap_SE_EPI'']
   \<and> (\<exists>e. find_field_maps ''/study'' ''S1'' (fm_state\<lparr>fs := take 5 (fs fm_state)\<rparr>)
             = (Exc e, fm_state\<lparr>fs := take 5 (fs fm_state)\<rparr>))
   \<and> (\<exists>e. find_field_maps ''/study'' ''S1'' (fm_state\<lparr>fs := take 1 (fs fm_state)\<rparr>)
             = (Exc e, fm_state\<lparr>fs := take 1 (fs fm_state)\<rparr>))"
proof -
  let ?found = "[''/study/S1/S1_V1_B/scans/26-FieldMap_SE_EPI'', ''/study/S1/S1_V1_B/scans/27-FieldMap_SE_EPI'',
         ''/study/S1/S1_V1_B/scans/38-FieldMap_SE_EPI'', ''/study/S1/S1_V1_B/scans/39-FieldMap_SE_EPI'']"
  let ?s1 = "fm_state\<lparr>fs := take 5 (fs fm_state)\<rparr>"
  let ?s2 = "fm_state\<lparr>fs := take 1 (fs fm_state)\<rparr>"
  have g0: "glob_suffix (path_div (path_div (pure_path ''/study'') ''S1'') (''S1'' @ ''_V1_B/scans'')) ''-FieldMap_SE_EPI'' fm_state
              = (Val ?found, fm_state)"
    by code_simp
  have g1: "glob_suffix (path_div (path_div (pure_path ''/study'') ''S1'') (''S1'' @ ''_V1_B/scans'')) ''-FieldMap_SE_EPI'' ?s1
              = (Val ?found, ?s1)"
    by code_simp
  have g2: "glob_suffix (path_div (path_div (pure_path ''/study'') ''S1'') (''S1'' @ ''_V1_B/scans'')) ''-FieldMap_SE_EPI'' ?s2
              = (Val [''/study/S1/S1_V1_B/scans/26-FieldMap_SE_EPI''], ?s2)"
    by code_simp
  have r0: "find_field_maps ''/study'' ''S1'' fm_state =
     (Val (''/study/S1/S1_V1_B/scans/39-FieldMap_SE_EPI/resources/NIFTI/files/S1_V1_B_PCASLhr_SpinEchoFieldMap_PA.nii.gz'',
           ''/study/S1/S1_V1_B/scans/38-FieldMap_SE_EPI/resources/NIFTI/files/S1_V1_B_PCASLhr_SpinEchoFieldMap_AP.nii.gz''),
      fm_state)"
    by code_simp
  have srt: "last_two (sort_key path_parts ?found)
      = [''/study/S1/S1_V1_B/scans/38-FieldMap_SE_EPI'', ''/study/S1/S1_V1_B/scans/39-FieldMap_SE_EPI'']"
    by code_simp
  have none: "list_all (\<lambda>d. lookup ?s1 (path_div d (pa_name ''S1'')) = None)
                (last_two (sort_key path_parts ?found))"
    by code_simp
  from find_field_maps_last_two[OF g0, THEN conjunct1, rule_format, OF r0]
  have a: "\<exists>a b. last_two (sort_key path_parts ?found) = [a, b]" by blast
  from find_field_maps_last_two[OF g1, THEN conjunct2, THEN conjunct1, rule_format, OF none]
  have b: "\<exists>e. find_field_maps ''/study'' ''S1'' ?s1 = (Exc e, ?s1)" .
  from find_field_maps_last_two[OF g2, THEN conjunct2, THEN conjunct2]
  have c: "\<exists>e. find_field_maps ''/study'' ''S1'' ?s2 = (Exc e, ?s2)" by simp
  from r0 srt b c show ?thesis by blast
qed

section \<open>The driver of the MT estimation\<close>

lemma parse_interpolation_iff:
  "parse_interpolation w (Some txt) = Inr v \<longleftrightarrow> to_int w txt = Some v \<and> 0 \<le> v \<and> v \<le> 5"
  by (auto simp: parse_interpolation_def int_choice_def split: option.splits)

lemma parse_args_interpolation:
  "parse_args w r = Inr a \<Longrightarrow> parse_interpolation w (raw_interpolation r) = Inr (interpolation a)"
  by (auto simp: parse_args_def ebind_Inr)

lemma required_Inl: "required v = Inl e \<Longrightarrow> e = SystemExit 2"
  by (auto simp: required_def split: option.splits)

lemma choice_Inl: "choice allowed d v = Inl e \<Longrightarrow> e = SystemExit 2"
  by (auto simp: choice_def split: option.splits if_splits)

lemma int_choice_Inl: "int_choice w lo hi d v = Inl e \<Longrightarrow> e = SystemExit 2"
  by (auto simp: int_choice_def split: option.splits if_splits)

lemma ebind_Inl_E:
  assumes "ebind r f = Inl e" and "r = Inl e \<Longrightarrow> P" and "\<And>x. r = Inr x \<Longrightarrow> f x = Inl e \<Longrightarrow> P"
  shows P
  using assms by (cases r) (simp_all add: ebind_def)

lemma parse_args_Inl:
  assumes "parse_args w r = Inl e"
  shows "e = SystemExit 2"
  using assms unfolding parse_args_def parse_interpolation_def
  by (elim ebind_Inl_E) (simp_all add: required_Inl choice_Inl int_choice_Inl)

lemma parse_args_rejects:
  assumes "\<forall>v. parse_interpolation w (raw_interpolation r) \<noteq> Inr v"
  shows "parse_args w r = Inl (SystemExit 2)"
proof (cases "parse_args w r")
  case (Inl e) with parse_args_Inl[OF Inl] show ?thesis by simp
next
  case (Inr a)
  from parse_args_interpolation[OF this] assms show ?thesis by blast
qed

lemma choice_Inr: "choice allowed d v = Inr x \<Longrightarrow> x = d \<or> x \<in> set allowed"
  by (auto simp: choice_def split: option.splits if_splits)

lemma parse_args_roi:
  assumes "parse_args w r = Inr a"
  shows "map_of ROIS (roi a) = Some (rois_of a)"
proof -
  from assms obtain x where "choice [''combined'', ''wm'', ''gm'', ''csf'', ''all''] ''combined'' (raw_roi r) = Inr x"
    and "roi a = x"
    by (auto simp: parse_args_def ebind_Inr)
  with choice_Inr[OF this(1)] show ?thesis by (auto simp: ROIS_def rois_of_def)
qed

text \<open>\<^verbatim>\<open>pool.map\<close> when every call returns.\<close>


lemma gather_map_Inr: "gather (map Inr xs) = Inr xs"
  by (induction xs) (simp_all add: ebind_def)

lemma run_chunk_returns:
  "\<forall>x\<in>set xs. f x = Inr (g x) \<Longrightarrow> run_chunk f xs = (xs, Inr (map g xs))"
  by (induction xs) (simp_all add: ebind_def)

lemma chunks_of_Nil: "chunks_of k [] = []"
  by (subst chunks_of.simps) simp

lemma chunks_of_step: "xs \<noteq> [] \<Longrightarrow> 0 < k \<Longrightarrow> chunks_of k xs = take k xs # chunks_of k (drop k xs)"
  by (subst chunks_of.simps) simp

lemma concat_chunks_of: "0 < k \<Longrightarrow> concat (chunks_of k xs) = xs"
proof (induction k xs rule: chunks_of.induct)
  case (1 k xs)
  show ?case
  proof (cases "xs = []")
    case True then show ?thesis by (simp add: chunks_of_Nil)
  next
    case False
    with 1 have "concat (chunks_of k (drop k xs)) = drop k xs" by simp
    with False "1.prems" show ?thesis by (simp add: chunks_of_step)
  qed
qed

lemma set_chunks_of: "c \<in> set (chunks_of k xs) \<Longrightarrow> set c \<subseteq> set xs"
proof (induction k xs rule: chunks_of.induct)
  case (1 k xs)
  show ?case
  proof (cases "xs = [] \<or> k = 0")
    case True
    then have "chunks_of k xs = []" by (subst chunks_of.simps) simp
    with "1.prems" show ?thesis by simp
  next
    case False
    then have e: "chunks_of k xs = take k xs # chunks_of k (drop k xs)"
      by (simp add: chunks_of_step)
    from "1.prems" e have "c = take k xs \<or> c \<in> set (chunks_of k (drop k xs))" by simp
    then show ?thesis
    proof
      assume "c = take k xs" then show ?thesis by (simp add: set_take_subset)
    next
      assume "c \<in> set (chunks_of k (drop k xs))"
      from "1.IH"[OF False this] set_drop_subset[of k xs] show ?thesis by (rule subset_trans)
    qed
  qed
qed

lemma chunksize_pos: "0 < n \<Longrightarrow> 0 < chunksize n k"
proof (cases "k * 4 = 0")
  case True
  assume "0 < n" with True show ?thesis by (simp add: chunksize_def Let_def)
next
  case False
  assume n: "0 < n"
  show ?thesis
  proof (cases "n mod (k * 4) = 0")
    case True
    then have "n = (n div (k * 4)) * (k * 4)" by (simp add: mod_eq_0_iff_dvd)
    with n have "0 < n div (k * 4)" by (metis mult_zero_left neq0_conv)
    with True show ?thesis by (simp add: chunksize_def Let_def)
  next
    case False then show ?thesis by (simp add: chunksize_def Let_def)
  qed
qed

lemma pool_map_returns:
  assumes "\<forall>x\<in>set xs. f x = Inr (g x)"
  shows "pool_map f k xs = (xs, Inr (map g xs))"
proof (cases "xs = []")
  case True then show ?thesis by (simp add: pool_map_def ebind_def chunks_of_Nil)
next
  case False
  let ?cs = "chunks_of (chunksize (length xs) k) xs"
  from False have "0 < chunksize (length xs) k" by (simp add: chunksize_pos)
  then have c: "concat ?cs = xs" by (rule concat_chunks_of)
  have "\<forall>c\<in>set ?cs. run_chunk f c = (c, Inr (map g c))"
  proof
    fix c assume "c \<in> set ?cs"
    then have "set c \<subseteq> set xs" by (rule set_chunks_of)
    with assms have "\<forall>x\<in>set c. f x = Inr (g x)" by blast
    then show "run_chunk f c = (c, Inr (map g c))" by (rule run_chunk_returns)
  qed
  then have m: "map (run_chunk f) ?cs = map (\<lambda>c. (c, Inr (map g c))) ?cs" by simp
  have g1: "map snd (map (\<lambda>c. (c, Inr (map g c) :: exn + 'b list)) ?cs) = map Inr (map (map g) ?cs)"
    by (simp add: comp_def)
  have g2: "map fst (map (\<lambda>c. (c, Inr (map g c) :: exn + 'b list)) ?cs) = ?cs"
    by (simp add: comp_def)
  have g3: "concat (map (map g) ?cs) = map g xs"
    by (simp add: map_concat[symmetric] c)
  show ?thesis
    unfolding pool_map_def Let_def m g1 g2 gather_map_Inr
    by (simp add: ebind_def c g3)
qed

lemma run_chunk_called: "set (fst (run_chunk f c)) \<subseteq> set c"
proof (induction c)
  case Nil show ?case by simp
next
  case (Cons x xs)
  show ?case
  proof (cases "f x")
    case (Inl e) then show ?thesis by simp
  next
    case (Inr y)
    obtain called r where rc: "run_chunk f xs = (called, r)" by (cases "run_chunk f xs")
    with Cons have "set called \<subseteq> set xs" by simp
    with Inr rc show ?thesis by auto
  qed
qed

text \<open>The report of the results.\<close>

lemma report_eq: "report rs = (map PrintResult rs, map fst (filter (\<lambda>r. snd r = PyInt 1) rs))"
proof -
  have "\<And>p q. foldl (\<lambda>(printed, successful_subs) result.
              (printed @ [PrintResult result],
               if snd result = PyInt 1 then successful_subs @ [fst result]
               else successful_subs)) (p, q) rs
          = (p @ map PrintResult rs, q @ map fst (filter (\<lambda>r. snd r = PyInt 1) rs))"
    by (induction rs) simp_all
  then show ?thesis by (simp add: report_def)
qed

lemma setup_interpolations_Nil [simp]: "setup_interpolations [] = []"
  by (simp add: setup_interpolations_def)

lemma setup_interpolations_Cons [simp]:
  "setup_interpolations (e # es) =
     (case e of SetupCall s kw \<Rightarrow> [kw_interpolation kw] | _ \<Rightarrow> []) @ setup_interpolations es"
  by (simp add: setup_interpolations_def)

lemma setup_interpolations_append [simp]:
  "setup_interpolations (xs @ ys) = setup_interpolations xs @ setup_interpolations ys"
  by (simp add: setup_interpolations_def)

lemma setup_interpolations_calls [simp]:
  "setup_interpolations (map (\<lambda>s. SetupCall s kw) subs) = replicate (length subs) (kw_interpolation kw)"
  by (induction subs) simp_all

lemma setup_interpolations_prints [simp]: "setup_interpolations (map Print xs) = []"
  by (induction xs) simp_all

lemma setup_interpolations_results [simp]: "setup_interpolations (map PrintResult xs) = []"
  by (induction xs) simp_all

lemma setup_interpolations_verbose [simp]: "setup_interpolations (verbose_prints a) = []"
  by (simp add: verbose_prints_def)

text \<open>The run of the driver once its arguments are parsed and its inputs read.\<close>

lemma mt_main_unfold:
  assumes args: "parse_args w r = Inr a"
    and sd: "resolve_strict w (studydir a) = Inr sd"
    and sl: "resolve_strict w (subjectlist a) = Inr sl"
    and ids: "loadtxt w sl = Inr ids"
  shows "mt_main w r =
    (let subjects = map (path_div sd) ids;
         (called, outcome) = pool_map (\<lambda>s. setup_mtestimation w s (setup_kw a)) (nat (cores a)) subjects;
         t1 = verbose_prints a @ map (\<lambda>s. SetupCall s (setup_kw a)) called
     in case outcome of Inl e \<Rightarrow> (Exc e, t1)
        | Inr results \<Rightarrow>
            (let succ = map fst (filter (\<lambda>x. snd x = PyInt 1) results);
                 t2 = t1 @ map PrintResult results
             in if time a \<and> ids = [] then (Exc ZeroDivisionError, t2)
                else (case estimate_mt w succ (estimate_kw a) of
                        Inl e \<Rightarrow> (Exc e, t2 @ (if time a then [PrintTime] else [])
                                               @ [EstimateCall succ (estimate_kw a)])
                      | Inr errors \<Rightarrow> (Val (), t2 @ (if time a then [PrintTime] else [])
                                               @ [EstimateCall succ (estimate_kw a)] @ map Print errors))))"
  by (simp add: mt_main_def args sd sl ids parse_args_roi[OF args] report_eq Let_def
        setup_kw_def estimate_kw_def verbose_prints_def
      split: prod.splits sum.splits)

lemma setup_calls_Nil [simp]: "setup_calls [] = []"
  by (simp add: setup_calls_def)

lemma setup_calls_Cons [simp]:
  "setup_calls (e # es) = (case e of SetupCall s kw \<Rightarrow> [(s, kw)] | _ \<Rightarrow> []) @ setup_calls es"
  by (simp add: setup_calls_def)

lemma setup_calls_append [simp]: "setup_calls (xs @ ys) = setup_calls xs @ setup_calls ys"
  by (simp add: setup_calls_def)

lemma setup_calls_calls [simp]:
  "setup_calls (map (\<lambda>s. SetupCall s kw) subs) = map (\<lambda>s. (s, kw)) subs"
  by (induction subs) simp_all

lemma setup_calls_prints [simp]: "setup_calls (map Print xs) = []"
  by (induction xs) simp_all

lemma setup_calls_results [simp]: "setup_calls (map PrintResult xs) = []"
  by (induction xs) simp_all

lemma setup_calls_verbose [simp]: "setup_calls (verbose_prints a) = []"
  by (simp add: verbose_prints_def)

lemma setup_interpolations_of_calls: "setup_interpolations t = map (\<lambda>c. kw_interpolation (snd c)) (setup_calls t)"
proof (induction t)
  case Nil show ?case by simp
next
  case (Cons e t) then show ?case by (cases e) simp_all
qed

lemma mt_main_setup_calls:
  assumes args: "parse_args w r = Inr a"
    and sd: "resolve_strict w (studydir a) = Inr sd"
    and sl: "resolve_strict w (subjectlist a) = Inr sl"
    and ids: "loadtxt w sl = Inr ids"
  shows "setup_calls (snd (mt_main w r)) =
           map (\<lambda>s. (s, setup_kw a))
             (fst (pool_map (\<lambda>s. setup_mtestimation w s (setup_kw a)) (nat (cores a)) (map (path_div sd) ids)))"
proof -
  obtain called outcome where pm:
    "pool_map (\<lambda>s. setup_mtestimation w s (setup_kw a)) (nat (cores a)) (map (path_div sd) ids) = (called, outcome)"
    by (cases "pool_map (\<lambda>s. setup_mtestimation w s (setup_kw a)) (nat (cores a)) (map (path_div sd) ids)")
  show ?thesis
  proof (cases outcome)
    case (Inl e)
    then show ?thesis by (simp add: mt_main_unfold[OF args sd sl ids] pm)
  next
    case (Inr results)
    then show ?thesis
      by (cases "estimate_mt w (map fst (filter (\<lambda>x. snd x = PyInt 1) results)) (estimate_kw a)")
         (simp_all add: mt_main_unfold[OF args sd sl ids] pm Let_def)
  qed
qed

lemma all_return:
  assumes "\<forall>x\<in>set xs. \<not> isl (f x)"
  shows "pool_map f k xs = (xs, Inr (map (\<lambda>x. projr (f x)) xs))"
proof (rule pool_map_returns)
  show "\<forall>x\<in>set xs. f x = Inr (projr (f x))"
  proof
    fix x assume "x \<in> set xs"
    with assms have "\<not> isl (f x)" by blast
    then show "f x = Inr (projr (f x))" by (cases "f x") simp_all
  qed
qed

text \<open>
  C5. A text given for \<^verbatim>\<open>--interpolation\<close> is accepted exactly when \<^verbatim>\<open>int\<close> reads it as
  an integer from 0 to 5. The accepted value is the \<^verbatim>\<open>interpolation\<close> keyword of every call
  of \<^verbatim>\<open>setup_mtestimation\<close>, and when the setup calls return there is one such call for
  each subject, in order. A value that is not accepted ends the run with exit status 2
  before any call is made.
\<close>

theorem interpolation_order_checked:
  "(parse_interpolation w (Some txt) = Inr v \<longleftrightarrow> to_int w txt = Some v \<and> 0 \<le> v \<and> v \<le> 5)
   \<and> (parse_args w r = Inr a \<longrightarrow>
        parse_interpolation w (raw_interpolation r) = Inr (interpolation a)
        \<and> kw_interpolation (setup_kw a) = interpolation a)
   \<and> (parse_args w r = Inr a \<longrightarrow> resolve_strict w (studydir a) = Inr sd \<longrightarrow>
        resolve_strict w (subjectlist a) = Inr sl \<longrightarrow> loadtxt w sl = Inr ids \<longrightarrow>
        setup_calls (snd (mt_main w r)) =
          map (\<lambda>s. (s, setup_kw a))
            (fst (pool_map (\<lambda>s. setup_mtestimation w s (setup_kw a)) (nat (cores a))
                    (map (path_div sd) ids)))
        \<and> ((\<forall>i\<in>set ids. \<not> isl (setup_mtestimation w (path_div sd i) (setup_kw a))) \<longrightarrow>
             setup_calls (snd (mt_main w r)) = map (\<lambda>i. (path_div sd i, setup_kw a)) ids
             \<and> setup_interpolations (snd (mt_main w r)) = replicate (length ids) (interpolation a)))
   \<and> ((\<forall>u. parse_interpolation w (raw_interpolation r') \<noteq> Inr u) \<longrightarrow>
        mt_main w r' = (Exc (SystemExit 2), []))"
proof (intro conjI impI)
  show "parse_interpolation w (Some txt) = Inr v \<longleftrightarrow> to_int w txt = Some v \<and> 0 \<le> v \<and> v \<le> 5"
    by (rule parse_interpolation_iff)
  show "parse_interpolation w (raw_interpolation r) = Inr (interpolation a)"
    if "parse_args w r = Inr a" using that by (rule parse_args_interpolation)
  show "kw_interpolation (setup_kw a) = interpolation a" by (simp add: setup_kw_def)
  show "mt_main w r' = (Exc (SystemExit 2), [])"
    if "\<forall>u. parse_interpolation w (raw_interpolation r') \<noteq> Inr u"
    using parse_args_rejects[OF that] by (simp add: mt_main_def)
next
  assume h: "parse_args w r = Inr a" "resolve_strict w (studydir a) = Inr sd"
    "resolve_strict w (subjectlist a) = Inr sl" "loadtxt w sl = Inr ids"
  show c: "setup_calls (snd (mt_main w r)) =
          map (\<lambda>s. (s, setup_kw a))
            (fst (pool_map (\<lambda>s. setup_mtestimation w s (setup_kw a)) (nat (cores a))
                    (map (path_div sd) ids)))"
    using h by (rule mt_main_setup_calls)
  assume "\<forall>i\<in>set ids. \<not> isl (setup_mtestimation w (path_div sd i) (setup_kw a))"
  then have "\<forall>s\<in>set (map (path_div sd) ids). \<not> isl (setup_mtestimation w s (setup_kw a))" by simp
  from all_return[OF this]
  have "fst (pool_map (\<lambda>s. setup_mtestimation w s (setup_kw a)) (nat (cores a)) (map (path_div sd) ids))
          = map (path_div sd) ids" by simp
  with c show d: "setup_calls (snd (mt_main w r)) = map (\<lambda>i. (path_div sd i, setup_kw a)) ids"
    by (simp add: comp_def)
  show "setup_interpolations (snd (mt_main w r)) = replicate (length ids) (interpolation a)"
    unfolding setup_interpolations_of_calls d
    by (simp add: comp_def setup_kw_def map_replicate_const)
qed

theorem interpolation_order_checked_witness:
  "parse_interpolation mt_world0 (Some ''2'') = Inr 2
   \<and> parse_interpolation mt_world0 (Some ''6'') \<noteq> Inr 6
   \<and> setup_calls (snd (mt_main mt_world0 raw0)) =
       [(''/study/HCA1'', setup_kw args0), (''/study/HCA2'', setup_kw args0),
        (''/study/HCA3'', setup_kw args0)]
   \<and> setup_interpolations (snd (mt_main mt_world0 raw0)) = [2, 2, 2]
   \<and> mt_main mt_world0 (raw0\<lparr>raw_interpolation := Some ''6''\<rparr>) = (Exc (SystemExit 2), [])"
proof -
  have a: "to_int mt_world0 ''2'' = Some 2" by code_simp
  have a6: "to_int mt_world0 ''6'' = Some 6" by code_simp
  have p: "parse_args mt_world0 raw0 = Inr args0" by code_simp
  have sd: "resolve_strict mt_world0 (studydir args0) = Inr ''/study''" by code_simp
  have sl: "resolve_strict mt_world0 (subjectlist args0) = Inr ''/study/subjects.txt''" by code_simp
  have ids: "loadtxt mt_world0 ''/study/subjects.txt'' = Inr [''HCA1'', ''HCA2'', ''HCA3'']"
    by (simp add: mt_world0_def)
  have ret: "\<forall>i\<in>set [''HCA1'', ''HCA2'', ''HCA3''].
      \<not> isl (setup_mtestimation mt_world0 (path_div ''/study'' i) (setup_kw args0))"
    by (simp add: mt_world0_def)
  have pd: "map (\<lambda>i. (path_div ''/study'' i, setup_kw args0)) [''HCA1'', ''HCA2'', ''HCA3'']
      = [(''/study/HCA1'', setup_kw args0), (''/study/HCA2'', setup_kw args0),
         (''/study/HCA3'', setup_kw args0)]"
    by code_simp
  have i: "interpolation args0 = 2" by (simp add: args0_def)
  have c: "\<forall>u. parse_interpolation mt_world0 (raw_interpolation (raw0\<lparr>raw_interpolation := Some ''6''\<rparr>)) \<noteq> Inr u"
  proof -
    have "parse_interpolation mt_world0 (Some ''6'') = Inl (SystemExit 2)" by code_simp
    then show ?thesis by simp
  qed
  from interpolation_order_checked[of mt_world0 "''2''" 2 raw0 args0 "''/study''"
        "''/study/subjects.txt''" "[''HCA1'', ''HCA2'', ''HCA3'']" "raw0\<lparr>raw_interpolation := Some ''6''\<rparr>"]
       interpolation_order_checked[of mt_world0 "''6''" 6 raw0 args0 "''/study''"
        "''/study/subjects.txt''" "[''HCA1'', ''HCA2'', ''HCA3'']" "raw0\<lparr>raw_interpolation := Some ''6''\<rparr>"]
       a a6 p sd sl ids ret pd i c
  show ?thesis by (simp add: numeral_eq_Suc)
qed





end
